theory Spec2Isabelle
  imports Complex_Main
begin

section \<open>JavaScript numbers\<close>

text \<open>
  The analytics core computes on JavaScript numbers, the binary64 numbers of IEEE 754.
  A finite number is modelled as the real it denotes, next to the three special values;
  every arithmetic operation rounds its exact result to the nearest binary64 number,
  with gradual underflow and overflow to the infinities, and the special values
  propagate as in IEEE arithmetic. The two zeros are identified: where the modelled
  code divides by a number that can be zero, that zero is a count, a square root or a
  sum started from \<open>+0\<close>, never the negative zero, or the quotient sits under
  \<open>Math.abs\<close>.
\<close>

datatype jsnum = Fin real | PInf | NInf | NaN

definition isNaN :: "jsnum \<Rightarrow> bool" where
  "isNaN x = (x = NaN)"


definition sgn_inf :: "real \<Rightarrow> jsnum" where
  "sgn_inf s = (if 0 < s then PInf else if s < 0 then NInf else NaN)"

fun num_sign :: "jsnum \<Rightarrow> real" where
  "num_sign (Fin a) = sgn a"
| "num_sign PInf = 1"
| "num_sign NInf = - 1"
| "num_sign NaN = 0"

fun num_neg :: "jsnum \<Rightarrow> jsnum" where
  "num_neg (Fin a) = Fin (- a)"
| "num_neg PInf = NInf"
| "num_neg NInf = PInf"
| "num_neg NaN = NaN"

subsection \<open>Rounding to binary64\<close>

text \<open>
  \<open>exp2 e\<close> is \<open>2^e\<close>. \<open>ilog2_in x lo hi\<close> finds by bisection the exponent \<open>e\<close> of
  the binade \<open>2^e \<le> x < 2^(e+1)\<close> that holds \<open>x\<close>, kept within \<open>lo \<le> e < hi\<close>; the
  normal exponents of binary64 are -1022 to 1023, which gives the \<open>binade\<close> of a real.
  The \<open>quantum\<close> of \<open>x\<close> is the distance between neighbouring binary64 numbers in that
  binade, 52 binary places below its exponent (\<open>2^-1074\<close> throughout the subnormal
  range). \<open>round_to q x\<close> is the multiple of \<open>q\<close> closest to \<open>x\<close>, the even multiple on
  a tie, and \<open>rounded x\<close> rounds \<open>x\<close> to its own quantum; a magnitude of \<open>2^1024\<close> or
  more overflows to an infinity. \<open>b64 x\<close> is the number that an operation with the
  exact result \<open>x\<close> returns.
\<close>

definition exp2 :: "int \<Rightarrow> real" where
  "exp2 e = (if 0 \<le> e then 2 ^ nat e else 1 / 2 ^ nat (- e))"

function ilog2_in :: "real \<Rightarrow> int \<Rightarrow> int \<Rightarrow> int" where
  "ilog2_in x lo hi =
     (if hi \<le> lo + 1 then lo
      else if exp2 ((lo + hi) div 2) \<le> x then ilog2_in x ((lo + hi) div 2) hi
      else ilog2_in x lo ((lo + hi) div 2))"
  by pat_completeness auto
termination
  by (relation "measure (\<lambda>(x, lo, hi). nat (hi - lo))") auto

declare ilog2_in.simps [simp del]

definition binade :: "real \<Rightarrow> int" where
  "binade x = ilog2_in \<bar>x\<bar> (- 1022) 1024"

definition quantum :: "real \<Rightarrow> real" where
  "quantum x = exp2 (binade x - 52)"

definition tie_even :: "int \<Rightarrow> real \<Rightarrow> int" where
  "tie_even f d = (if d < 1 / 2 then f else if 1 / 2 < d then f + 1 else if even f then f else f + 1)"

definition round_even :: "real \<Rightarrow> int" where
  "round_even r = tie_even \<lfloor>r\<rfloor> (r - of_int \<lfloor>r\<rfloor>)"

definition round_to :: "real \<Rightarrow> real \<Rightarrow> real" where
  "round_to q x = sgn x * of_int (round_even (\<bar>x\<bar> / q)) * q"

definition overflow :: "real \<Rightarrow> jsnum" where
  "overflow y = (if 2 ^ 1024 \<le> \<bar>y\<bar> then (if 0 < y then PInf else NInf) else Fin y)"

definition rounded :: "real \<Rightarrow> real" where
  "rounded x = round_to (quantum x) x"

definition b64 :: "real \<Rightarrow> jsnum" where
  "b64 x = overflow (rounded x)"


subsection \<open>Arithmetic\<close>

fun num_add :: "jsnum \<Rightarrow> jsnum \<Rightarrow> jsnum" where
  "num_add (Fin a) (Fin b) = b64 (a + b)"
| "num_add NaN _ = NaN"
| "num_add _ NaN = NaN"
| "num_add PInf NInf = NaN"
| "num_add NInf PInf = NaN"
| "num_add PInf _ = PInf"
| "num_add NInf _ = NInf"
| "num_add _ PInf = PInf"
| "num_add _ NInf = NInf"

definition num_sub :: "jsnum \<Rightarrow> jsnum \<Rightarrow> jsnum" where
  "num_sub a b = num_add a (num_neg b)"

fun num_mul :: "jsnum \<Rightarrow> jsnum \<Rightarrow> jsnum" where
  "num_mul (Fin a) (Fin b) = b64 (a * b)"
| "num_mul NaN _ = NaN"
| "num_mul _ NaN = NaN"
| "num_mul a b = sgn_inf (num_sign a * num_sign b)"

fun num_div :: "jsnum \<Rightarrow> jsnum \<Rightarrow> jsnum" where
  "num_div (Fin a) (Fin b) = (if b = 0 then sgn_inf a else b64 (a / b))"
| "num_div NaN _ = NaN"
| "num_div _ NaN = NaN"
| "num_div (Fin a) _ = Fin 0"
| "num_div a (Fin b) = sgn_inf (num_sign a * (if b < 0 then - 1 else 1))"
| "num_div _ _ = NaN"

fun num_lt :: "jsnum \<Rightarrow> jsnum \<Rightarrow> bool" where
  "num_lt (Fin a) (Fin b) = (a < b)"
| "num_lt NaN _ = False"
| "num_lt _ NaN = False"
| "num_lt NInf NInf = False"
| "num_lt NInf _ = True"
| "num_lt _ NInf = False"
| "num_lt PInf _ = False"
| "num_lt _ PInf = True"

definition num_gt :: "jsnum \<Rightarrow> jsnum \<Rightarrow> bool" where
  "num_gt a b = num_lt b a"

definition num_le :: "jsnum \<Rightarrow> jsnum \<Rightarrow> bool" where
  "num_le a b = (a \<noteq> NaN \<and> b \<noteq> NaN \<and> \<not> num_lt b a)"

definition num_ge :: "jsnum \<Rightarrow> jsnum \<Rightarrow> bool" where
  "num_ge a b = num_le b a"

fun num_abs :: "jsnum \<Rightarrow> jsnum" where
  "num_abs (Fin a) = Fin \<bar>a\<bar>"
| "num_abs PInf = PInf"
| "num_abs NInf = PInf"
| "num_abs NaN = NaN"

fun num_sqrt :: "jsnum \<Rightarrow> jsnum" where
  "num_sqrt (Fin a) = (if a < 0 then NaN else b64 (sqrt a))"
| "num_sqrt PInf = PInf"
| "num_sqrt NInf = NaN"
| "num_sqrt NaN = NaN"

text \<open>\<open>Math.pow(x, 2)\<close>, which the engines compute as the rounded product \<open>x * x\<close>.\<close>

definition num_pow2 :: "jsnum \<Rightarrow> jsnum" where
  "num_pow2 x = num_mul x x"

text \<open>\<open>Math.max(a, b)\<close> and \<open>Math.min(a, b)\<close>: NaN as soon as one argument is.\<close>

definition num_max :: "jsnum \<Rightarrow> jsnum \<Rightarrow> jsnum" where
  "num_max a b = (if a = NaN \<or> b = NaN then NaN else if num_lt a b then b else a)"

definition num_min :: "jsnum \<Rightarrow> jsnum \<Rightarrow> jsnum" where
  "num_min a b = (if a = NaN \<or> b = NaN then NaN else if num_lt b a then b else a)"

text \<open>\<open>x || y\<close> on numbers: the falsy numbers are 0 and NaN.\<close>

definition num_or :: "jsnum \<Rightarrow> jsnum \<Rightarrow> jsnum" where
  "num_or a b = (if a = NaN \<or> a = Fin 0 then b else a)"

definition of_count :: "nat \<Rightarrow> jsnum" where
  "of_count n = Fin (real n)"

text \<open>
  \<open>x.toFixed(d)\<close> picks the integer \<open>n\<close> with \<open>n / 10^d\<close> closest to \<open>|x|\<close>, the
  larger one on a tie, and prints it; from \<open>10^21\<close> on it prints \<open>x\<close> itself.
  \<open>parseFloat(x.toFixed(d))\<close> reads the printed number back: the model returns the
  decimal number that the text denotes, where the code holds the binary64 number
  nearest to it; the code only ever returns such a number and never computes with it.
\<close>

definition fixed_units :: "nat \<Rightarrow> real \<Rightarrow> int" where
  "fixed_units d x = \<lfloor>\<bar>x\<bar> * 10 ^ d + 1 / 2\<rfloor>"

fun parseFloat_toFixed :: "nat \<Rightarrow> jsnum \<Rightarrow> jsnum" where
  "parseFloat_toFixed d (Fin x) =
     (if 10 ^ 21 \<le> \<bar>x\<bar> then Fin x
      else Fin (sgn x * of_int (fixed_units d x) / 10 ^ d))"
| "parseFloat_toFixed d PInf = PInf"
| "parseFloat_toFixed d NInf = NInf"
| "parseFloat_toFixed d NaN = NaN"

section \<open>Strings\<close>

text \<open>
  Strings are lists of characters; the modelled code only inspects ASCII letters,
  digits and punctuation (\<open>toLowerCase\<close>, \<open>includes\<close>, the class \<open>\w\<close>).
\<close>

definition upper_chars :: string where
  "upper_chars = ''ABCDEFGHIJKLMNOPQRSTUVWXYZ''"

definition lower_chars :: string where
  "lower_chars = ''abcdefghijklmnopqrstuvwxyz''"

definition digit_chars :: string where
  "digit_chars = ''0123456789''"

definition to_lower_char :: "char \<Rightarrow> char" where
  "to_lower_char c = (case map_of (zip upper_chars lower_chars) c of Some l \<Rightarrow> l | None \<Rightarrow> c)"

definition to_upper_char :: "char \<Rightarrow> char" where
  "to_upper_char c = (case map_of (zip lower_chars upper_chars) c of Some u \<Rightarrow> u | None \<Rightarrow> c)"

definition toLowerCase :: "string \<Rightarrow> string" where
  "toLowerCase s = map to_lower_char s"

text \<open>The class \<open>\w\<close> of a regular expression.\<close>

definition word_char :: "char \<Rightarrow> bool" where
  "word_char c = (c \<in> set (upper_chars @ lower_chars @ digit_chars @ ''_''))"

definition startsWith :: "string \<Rightarrow> string \<Rightarrow> bool" where
  "startsWith s p = (take (length p) s = p)"

fun str_includes :: "string \<Rightarrow> string \<Rightarrow> bool" where
  "str_includes [] p = (p = [])"
| "str_includes (c # cs) p = (startsWith (c # cs) p \<or> str_includes cs p)"

text \<open>
  The first match of a regular expression \<open>/pre(\w+)suf/i\<close>, with \<open>pre\<close> and \<open>suf\<close>
  literal texts given in lower case, \<open>suf\<close> empty or starting with a character outside
  \<open>\w\<close>: the captured group is the whole run of word characters after \<open>pre\<close>.
  The result is the group of the leftmost match, \<open>None\<close> for \<open>null\<close>.
  \<open>starts_ci s p\<close>: the text \<open>p\<close> stands at the start of \<open>s\<close>, letter case ignored.
\<close>

definition starts_ci :: "string \<Rightarrow> string \<Rightarrow> bool" where
  "starts_ci s p = (toLowerCase (take (length p) s) = p)"

fun match_word :: "string \<Rightarrow> string \<Rightarrow> string \<Rightarrow> string option" where
  "match_word pre suf [] = None"
| "match_word pre suf (c # cs) =
     (if starts_ci (c # cs) pre
      then (if takeWhile word_char (drop (length pre) (c # cs)) \<noteq> []
               \<and> starts_ci (dropWhile word_char (drop (length pre) (c # cs))) suf
            then Some (takeWhile word_char (drop (length pre) (c # cs)))
            else match_word pre suf cs)
      else match_word pre suf cs)"

section \<open>String to number\<close>

text \<open>
  \<open>Number(s)\<close> on a string: white space is trimmed, the empty text is 0, and the
  rest must be a whole numeric literal (\<open>Infinity\<close>, a decimal literal with optional
  sign, fraction and exponent, or an unsigned \<open>0x\<close>, \<open>0o\<close>, \<open>0b\<close> literal); anything
  else is NaN. The value of the literal is rounded to binary64.
\<close>

definition ws_char :: "char \<Rightarrow> bool" where
  "ws_char c = (c \<in> set [CHR 0x09, CHR 0x0A, CHR 0x0B, CHR 0x0C, CHR 0x0D, CHR '' ''])"

definition str_trim :: "string \<Rightarrow> string" where
  "str_trim s = rev (dropWhile ws_char (rev (dropWhile ws_char s)))"

definition digit_table :: "(char \<times> nat) list" where
  "digit_table =
     [(CHR ''0'', 0), (CHR ''1'', 1), (CHR ''2'', 2), (CHR ''3'', 3), (CHR ''4'', 4),
      (CHR ''5'', 5), (CHR ''6'', 6), (CHR ''7'', 7), (CHR ''8'', 8), (CHR ''9'', 9),
      (CHR ''a'', 10), (CHR ''b'', 11), (CHR ''c'', 12), (CHR ''d'', 13), (CHR ''e'', 14),
      (CHR ''f'', 15), (CHR ''A'', 10), (CHR ''B'', 11), (CHR ''C'', 12), (CHR ''D'', 13),
      (CHR ''E'', 14), (CHR ''F'', 15)]"

definition digit_in :: "nat \<Rightarrow> char \<Rightarrow> nat option" where
  "digit_in base c =
     (case map_of digit_table c of
        None \<Rightarrow> None
      | Some v \<Rightarrow> if v < base then Some v else None)"

definition is_digit :: "nat \<Rightarrow> char \<Rightarrow> bool" where
  "is_digit base c = (digit_in base c \<noteq> None)"

definition digits_value :: "nat \<Rightarrow> string \<Rightarrow> nat" where
  "digits_value base ds =
     foldl (\<lambda>n c. n * base + (case digit_in base c of None \<Rightarrow> 0 | Some v \<Rightarrow> v)) 0 ds"

definition all_digits :: "nat \<Rightarrow> string \<Rightarrow> bool" where
  "all_digits base ds = (ds \<noteq> [] \<and> list_all (is_digit base) ds)"

definition parse_exponent :: "string \<Rightarrow> int option" where
  "parse_exponent s =
     (case s of
        [] \<Rightarrow> Some 0
      | c # r \<Rightarrow>
          if c = CHR ''e'' \<or> c = CHR ''E'' then
            (let neg = (r \<noteq> [] \<and> hd r = CHR ''-'');
                 ds = (if r \<noteq> [] \<and> (hd r = CHR ''-'' \<or> hd r = CHR ''+'') then tl r else r)
             in if all_digits 10 ds
                then Some ((if neg then - 1 else 1) * int (digits_value 10 ds))
                else None)
          else None)"

definition parse_unsigned_decimal :: "string \<Rightarrow> jsnum" where
  "parse_unsigned_decimal s =
     (if s = ''Infinity'' then PInf
      else
        (let ip = takeWhile (is_digit 10) s;
             r1 = dropWhile (is_digit 10) s;
             dot = (r1 \<noteq> [] \<and> hd r1 = CHR ''.'');
             fp = (if dot then takeWhile (is_digit 10) (tl r1) else []);
             r2 = (if dot then dropWhile (is_digit 10) (tl r1) else r1)
         in if ip = [] \<and> fp = [] then NaN
            else
              (case parse_exponent r2 of
                 None \<Rightarrow> NaN
               | Some e \<Rightarrow>
                   b64 ((real (digits_value 10 ip) + real (digits_value 10 fp) / 10 ^ length fp)
                        * (if 0 \<le> e then 10 ^ nat e else 1 / 10 ^ nat (- e))))))"

definition parse_radix :: "nat \<Rightarrow> string \<Rightarrow> jsnum" where
  "parse_radix base ds = (if all_digits base ds then b64 (real (digits_value base ds)) else NaN)"

definition str_to_number :: "string \<Rightarrow> jsnum" where
  "str_to_number s =
     (let t = str_trim s in
      if t = [] then Fin 0
      else if hd t = CHR ''+'' then parse_unsigned_decimal (tl t)
      else if hd t = CHR ''-'' then num_neg (parse_unsigned_decimal (tl t))
      else if startsWith (toLowerCase t) ''0x'' then parse_radix 16 (drop 2 t)
      else if startsWith (toLowerCase t) ''0o'' then parse_radix 8 (drop 2 t)
      else if startsWith (toLowerCase t) ''0b'' then parse_radix 2 (drop 2 t)
      else parse_unsigned_decimal t)"

section \<open>Values and rows\<close>

text \<open>
  A cell of a row is a primitive value. A row is an object with string keys: the list
  of its properties in the order the object enumerates them, each key once.
  \<open>get\<close> is \<open>row[key]\<close>, \<open>undefined\<close> for a missing key; \<open>set_prop\<close> is the assignment
  \<open>row[key] = v\<close>, which keeps the place of an existing key and appends a new one.
\<close>

datatype jsval = JUndefined | JNull | JBool bool | JNum jsnum | JStr string

type_synonym row = "(string \<times> jsval) list"

fun truthy :: "jsval \<Rightarrow> bool" where
  "truthy JUndefined = False"
| "truthy JNull = False"
| "truthy (JBool b) = b"
| "truthy (JNum n) = (n \<noteq> NaN \<and> n \<noteq> Fin 0)"
| "truthy (JStr s) = (s \<noteq> [])"

definition val_or :: "jsval \<Rightarrow> jsval \<Rightarrow> jsval" where
  "val_or a b = (if truthy a then a else b)"

text \<open>\<open>Number(v)\<close>.\<close>

fun to_number :: "jsval \<Rightarrow> jsnum" where
  "to_number JUndefined = NaN"
| "to_number JNull = Fin 0"
| "to_number (JBool b) = (if b then Fin 1 else Fin 0)"
| "to_number (JNum n) = n"
| "to_number (JStr s) = str_to_number s"

definition get :: "row \<Rightarrow> string \<Rightarrow> jsval" where
  "get r k = (case map_of r k of None \<Rightarrow> JUndefined | Some v \<Rightarrow> v)"

fun set_prop :: "row \<Rightarrow> string \<Rightarrow> jsval \<Rightarrow> row" where
  "set_prop [] k v = [(k, v)]"
| "set_prop ((k', v') # r) k v = (if k' = k then (k, v) # r else (k', v') # set_prop r k v)"

text \<open>\<open>v === null || v === undefined\<close>.\<close>

definition is_nullish :: "jsval \<Rightarrow> bool" where
  "is_nullish v = (v = JNull \<or> v = JUndefined)"

section \<open>Dates\<close>

text \<open>
  A \<open>Date\<close> object holds a time value, an integer number of milliseconds since the
  epoch, or is invalid (\<open>None\<close>). Dates are read in the UTC time zone.
  \<open>toISOString\<close> prints a time value as \<open>YYYY-MM-DDTHH:mm:ss.sssZ\<close>, the year with
  six digits and a sign outside 0..9999.
\<close>

definition ms_per_day :: int where
  "ms_per_day = 86400000"

text \<open>
  The civil date (year, month, day) of a day number, by eras of 400 years: first the
  era and the day of the era, then the year of the era, the day of the year (from
  March 1st), the month index and the day of the month.
\<close>

definition civil_of_mp :: "int \<Rightarrow> int \<Rightarrow> int \<Rightarrow> int \<times> int \<times> int" where
  "civil_of_mp y doy mp =
     (y + (if mp < 10 then 0 else 1), (if mp < 10 then mp + 3 else mp - 9),
      doy - (153 * mp + 2) div 5 + 1)"

definition civil_of_doy :: "int \<Rightarrow> int \<Rightarrow> int \<times> int \<times> int" where
  "civil_of_doy y doy = civil_of_mp y doy ((5 * doy + 2) div 153)"

definition civil_of_yoe :: "int \<Rightarrow> int \<Rightarrow> int \<Rightarrow> int \<times> int \<times> int" where
  "civil_of_yoe era doe yoe =
     civil_of_doy (yoe + era * 400) (doe - (365 * yoe + yoe div 4 - yoe div 100))"

definition civil_of_doe :: "int \<Rightarrow> int \<Rightarrow> int \<times> int \<times> int" where
  "civil_of_doe era doe =
     civil_of_yoe era doe ((doe - doe div 1460 + doe div 36524 - doe div 146096) div 365)"

definition civil_of_era :: "int \<Rightarrow> int \<Rightarrow> int \<times> int \<times> int" where
  "civil_of_era z era = civil_of_doe era (z - era * 146097)"

definition civil_from_days :: "int \<Rightarrow> int \<times> int \<times> int" where
  "civil_from_days z0 = civil_of_era (z0 + 719468) ((z0 + 719468) div 146097)"

definition days_from_civil :: "int \<Rightarrow> int \<Rightarrow> int \<Rightarrow> int" where
  "days_from_civil y0 m d =
     (let y = y0 - (if m \<le> 2 then 1 else 0);
          era = y div 400;
          yoe = y - era * 400;
          doy = (153 * (if 2 < m then m - 3 else m + 9) + 2) div 5 + d - 1;
          doe = yoe * 365 + yoe div 4 - yoe div 100 + doy
      in era * 146097 + doe - 719468)"

text \<open>The last \<open>w\<close> decimal digits of \<open>n\<close>.\<close>

primrec pad_digits :: "nat \<Rightarrow> nat \<Rightarrow> string" where
  "pad_digits 0 n = []"
| "pad_digits (Suc w) n = pad_digits w (n div 10) @ [digit_chars ! (n mod 10)]"

fun iso_text :: "int \<times> int \<times> int \<Rightarrow> nat \<Rightarrow> string" where
  "iso_text (y, m, d) tod =
     (if 0 \<le> y \<and> y \<le> 9999 then pad_digits 4 (nat y)
      else (if y < 0 then ''-'' else ''+'') @ pad_digits 6 (nat \<bar>y\<bar>))
     @ ''-'' @ pad_digits 2 (nat m) @ ''-'' @ pad_digits 2 (nat d) @ ''T''
     @ pad_digits 2 (tod div 3600000) @ '':'' @ pad_digits 2 (tod div 60000 mod 60) @ '':''
     @ pad_digits 2 (tod div 1000 mod 60) @ ''.'' @ pad_digits 3 (tod mod 1000) @ ''Z''"

definition toISOString :: "int \<Rightarrow> string" where
  "toISOString t = iso_text (civil_from_days (t div ms_per_day)) (nat (t mod ms_per_day))"

text \<open>\<open>TimeClip\<close>: the time value of \<open>new Date(x)\<close> for a number \<open>x\<close>.\<close>

fun time_clip :: "jsnum \<Rightarrow> int option" where
  "time_clip (Fin x) =
     (if \<bar>x\<bar> \<le> 8640000000000000 then Some (if 0 \<le> x then \<lfloor>x\<rfloor> else \<lceil>x\<rceil>) else None)"
| "time_clip _ = None"

text \<open>
  \<open>new Date(v)\<close>: a string is parsed, any other value is converted to a number.
  Which strings \<open>Date.parse\<close> accepts beyond the ISO format is up to the JavaScript
  engine, so the parser is a parameter \<open>dp\<close> of the model (\<open>dp v\<close> is
  \<open>Date.parse(v)\<close>, \<open>None\<close> for NaN).
\<close>

fun new_Date :: "(jsval \<Rightarrow> int option) \<Rightarrow> jsval \<Rightarrow> int option" where
  "new_Date dp (JStr s) = dp (JStr s)"
| "new_Date dp v = time_clip (to_number v)"

definition getTime :: "int option \<Rightarrow> jsnum" where
  "getTime d = (case d of None \<Rightarrow> NaN | Some t \<Rightarrow> Fin (of_int t))"

text \<open>\<open>d.setDate(d.getDate() + i)\<close>.\<close>

definition add_days :: "int option \<Rightarrow> int \<Rightarrow> int option" where
  "add_days d i = (case d of None \<Rightarrow> None | Some t \<Rightarrow> time_clip (Fin (of_int (t + i * ms_per_day))))"

text \<open>
  A reference parser for the closed examples: the two ISO forms \<open>YYYY-MM-DD\<close> and
  \<open>YYYY-MM-DDTHH:mm:ss.sssZ\<close>, which every engine reads as UTC.
\<close>

definition days_in_month :: "int \<Rightarrow> int \<Rightarrow> int" where
  "days_in_month y m =
     (if m = 2 then (if y mod 4 = 0 \<and> (y mod 100 \<noteq> 0 \<or> y mod 400 = 0) then 29 else 28)
      else if m = 4 \<or> m = 6 \<or> m = 9 \<or> m = 11 then 30 else 31)"

definition iso_parse_date :: "string \<Rightarrow> int option" where
  "iso_parse_date s =
     (if length s = 10 \<and> s ! 4 = CHR ''-'' \<and> s ! 7 = CHR ''-'' \<and> all_digits 10 (take 4 s)
         \<and> all_digits 10 (take 2 (drop 5 s)) \<and> all_digits 10 (drop 8 s)
      then
        (let y = int (digits_value 10 (take 4 s));
             m = int (digits_value 10 (take 2 (drop 5 s)));
             d = int (digits_value 10 (drop 8 s))
         in if 1 \<le> m \<and> m \<le> 12 \<and> 1 \<le> d \<and> d \<le> days_in_month y m
            then Some (days_from_civil y m d * ms_per_day) else None)
      else None)"

definition iso_parse_time :: "string \<Rightarrow> int option" where
  "iso_parse_time s =
     (if length s = 13 \<and> s ! 2 = CHR '':'' \<and> s ! 5 = CHR '':'' \<and> s ! 8 = CHR ''.''
         \<and> s ! 12 = CHR ''Z'' \<and> all_digits 10 (take 2 s) \<and> all_digits 10 (take 2 (drop 3 s))
         \<and> all_digits 10 (take 2 (drop 6 s)) \<and> all_digits 10 (take 3 (drop 9 s))
      then
        (let h = int (digits_value 10 (take 2 s));
             mi = int (digits_value 10 (take 2 (drop 3 s)));
             se = int (digits_value 10 (take 2 (drop 6 s)));
             ms = int (digits_value 10 (take 3 (drop 9 s)))
         in if h < 24 \<and> mi < 60 \<and> se < 60
            then Some (h * 3600000 + mi * 60000 + se * 1000 + ms) else None)
      else None)"

fun iso_parse :: "jsval \<Rightarrow> int option" where
  "iso_parse (JStr s) =
     (if length s = 10 then iso_parse_date s
      else if length s = 24 \<and> s ! 10 = CHR ''T'' then
        (case (iso_parse_date (take 10 s), iso_parse_time (drop 11 s)) of
           (Some a, Some b) \<Rightarrow> Some (a + b)
         | _ \<Rightarrow> None)
      else None)"
| "iso_parse _ = None"

section \<open>Sorting\<close>

text \<open>
  \<open>Array.prototype.sort\<close> with a comparator is stable, and an element moves behind
  another only when the comparator is positive on the pair (NaN counts as 0): for a
  consistent comparator the result is the one of the stable insertion sort.
\<close>

fun js_insert :: "('a \<Rightarrow> 'a \<Rightarrow> jsnum) \<Rightarrow> 'a \<Rightarrow> 'a list \<Rightarrow> 'a list" where
  "js_insert cmp x [] = [x]"
| "js_insert cmp x (y # ys) =
     (if num_gt (cmp x y) (Fin 0) then y # js_insert cmp x ys else x # y # ys)"

definition js_sort :: "('a \<Rightarrow> 'a \<Rightarrow> jsnum) \<Rightarrow> 'a list \<Rightarrow> 'a list" where
  "js_sort cmp xs = foldr (js_insert cmp) xs []"

section \<open>The forecasting, anomaly and KPI engine (voiceService.ts)\<close>

text \<open>
  \<open>detectAnomalies\<close> and \<open>predictTimeSeries\<close> both start by mapping every row, with its
  index, to a point and filtering the points:
  \<^verbatim>\<open>{ timestamp: row.date || row.timestamp
                 || new Date(Date.now() - (data.length - index) * 86400000).toISOString(),
     value: Number(row[metric]) || 0 }\<close>
  followed by \<^verbatim>\<open>.filter(v => !isNaN(v.value))\<close>.
  \<open>now\<close> is the reading of \<open>Date.now()\<close>; it and the number of rows are taken to be
  such that the synthetic dates are valid dates, which holds for every real clock and
  less than \<open>10^8\<close> rows.
\<close>

record point =
  pt_stamp :: jsval
  pt_value :: jsnum

definition row_stamp :: "int \<Rightarrow> nat \<Rightarrow> nat \<Rightarrow> row \<Rightarrow> jsval" where
  "row_stamp now n index r =
     val_or (val_or (get r ''date'') (get r ''timestamp''))
       (JStr (toISOString (now - (int n - int index) * 86400000)))"

definition row_value :: "string \<Rightarrow> row \<Rightarrow> jsnum" where
  "row_value m r = num_or (to_number (get r m)) (Fin 0)"

definition row_point :: "int \<Rightarrow> nat \<Rightarrow> string \<Rightarrow> nat \<times> row \<Rightarrow> point" where
  "row_point now n m ir =
     \<lparr>pt_stamp = row_stamp now n (fst ir) (snd ir), pt_value = row_value m (snd ir)\<rparr>"

definition series :: "int \<Rightarrow> row list \<Rightarrow> string \<Rightarrow> point list" where
  "series now data m =
     filter (\<lambda>v. \<not> isNaN (pt_value v)) (map (row_point now (length data) m) (enumerate 0 data))"

text \<open>A row with an explicit date: \<open>row.date || row.timestamp\<close> is truthy.\<close>

definition has_date :: "row \<Rightarrow> bool" where
  "has_date r = (truthy (get r ''date'') \<or> truthy (get r ''timestamp''))"

subsection \<open>detectAnomalies\<close>

datatype severity = Low | Medium | High

record anomaly_result =
  timestamp :: jsval
  metric :: string
  anomaly_value :: jsnum
  expected_value :: jsnum
  deviation :: jsnum
  is_anomaly :: bool
  severity :: severity

definition sum_values :: "point list \<Rightarrow> jsnum" where
  "sum_values values = foldl (\<lambda>sum v. num_add sum (pt_value v)) (Fin 0) values"

definition series_mean :: "point list \<Rightarrow> jsnum" where
  "series_mean values = num_div (sum_values values) (of_count (length values))"

definition series_variance :: "point list \<Rightarrow> jsnum" where
  "series_variance values =
     num_div
       (foldl (\<lambda>sum v. num_add sum (num_pow2 (num_sub (pt_value v) (series_mean values)))) (Fin 0) values)
       (of_count (length values))"

definition series_stdDev :: "point list \<Rightarrow> jsnum" where
  "series_stdDev values = num_sqrt (series_variance values)"

definition zScore :: "jsnum \<Rightarrow> jsnum \<Rightarrow> jsnum \<Rightarrow> jsnum" where
  "zScore v mean stdDev = num_abs (num_div (num_sub v mean) stdDev)"

definition threshold :: jsnum where
  "threshold = Fin 2"

definition anomaly_of :: "string \<Rightarrow> jsnum \<Rightarrow> jsnum \<Rightarrow> point \<Rightarrow> anomaly_result" where
  "anomaly_of m mean stdDev p =
     (let z = zScore (pt_value p) mean stdDev;
          isAnomaly = num_gt z threshold;
          dev = num_mul (num_div (num_sub (pt_value p) mean) mean) (Fin 100);
          sev = (if num_gt z (Fin 3) then High else if num_gt z (Fin 2.5) then Medium else Low)
      in \<lparr>timestamp = pt_stamp p, metric = m, anomaly_value = pt_value p, expected_value = mean,
          deviation = parseFloat_toFixed 2 dev, is_anomaly = isAnomaly, severity = sev\<rparr>)"

definition detectAnomalies :: "int \<Rightarrow> row list \<Rightarrow> string \<Rightarrow> anomaly_result list" where
  "detectAnomalies now data m =
     (let values = series now data m in
      if length values < 3 then []
      else filter is_anomaly (map (anomaly_of m (series_mean values) (series_stdDev values)) values))"

subsection \<open>exponentialSmoothing and linearRegression\<close>

fun smooth_from :: "jsnum \<Rightarrow> jsnum \<Rightarrow> jsnum list \<Rightarrow> jsnum list" where
  "smooth_from alpha prev [] = []"
| "smooth_from alpha prev (v # vs) =
     (let s = num_add (num_mul alpha v) (num_mul (num_sub (Fin 1) alpha) prev)
      in s # smooth_from alpha s vs)"

text \<open>On the empty array the source yields \<open>[undefined]\<close>; no caller passes it.\<close>

fun exponentialSmoothing :: "jsnum list \<Rightarrow> jsnum \<Rightarrow> jsnum list" where
  "exponentialSmoothing [] alpha = [NaN]"
| "exponentialSmoothing (v # vs) alpha = v # smooth_from alpha v vs"

definition num_sum :: "jsnum list \<Rightarrow> jsnum" where
  "num_sum xs = foldl num_add (Fin 0) xs"

text \<open>\<open>y[i]\<close>, \<open>undefined\<close> (NaN in arithmetic) past the end.\<close>

definition elem_at :: "jsnum list \<Rightarrow> nat \<Rightarrow> jsnum" where
  "elem_at ys i = (if i < length ys then ys ! i else NaN)"

definition linearRegression :: "jsnum list \<Rightarrow> jsnum list \<Rightarrow> jsnum \<times> jsnum" where
  "linearRegression x y =
     (let n = of_count (length x);
          sumX = num_sum x;
          sumY = num_sum y;
          sumXY = foldl (\<lambda>sum (i, xi). num_add sum (num_mul xi (elem_at y i))) (Fin 0) (enumerate 0 x);
          sumXX = foldl (\<lambda>sum xi. num_add sum (num_mul xi xi)) (Fin 0) x;
          slope = num_div (num_sub (num_mul n sumXY) (num_mul sumX sumY))
                          (num_sub (num_mul n sumXX) (num_mul sumX sumX));
          intercept = num_div (num_sub sumY (num_mul slope sumX)) n
      in (slope, intercept))"

subsection \<open>predictTimeSeries\<close>

datatype error = RangeError | NoData

record prediction =
  date :: string
  pvalue :: jsnum
  confidence_lower :: jsnum
  confidence_upper :: jsnum

record prediction_result =
  pmetric :: string
  predictions :: "prediction list"
  accuracy_score :: "jsnum option"
  model_type :: string

definition timeSeriesData :: "int \<Rightarrow> (jsval \<Rightarrow> int option) \<Rightarrow> row list \<Rightarrow> string \<Rightarrow> point list" where
  "timeSeriesData now dp data m =
     js_sort (\<lambda>a b. num_sub (getTime (new_Date dp (pt_stamp a))) (getTime (new_Date dp (pt_stamp b))))
       (series now data m)"

text \<open>
  One turn of the loop \<open>for (let i = 1; i <= periods; i++)\<close>. \<open>toISOString\<close> raises
  a \<open>RangeError\<close> on an invalid date.
\<close>

definition predict_step ::
  "nat \<Rightarrow> jsnum \<Rightarrow> jsnum \<Rightarrow> jsnum \<Rightarrow> int option \<Rightarrow> int \<Rightarrow> error + prediction" where
  "predict_step n slope intercept confidenceInterval lastDate i =
     (let futureIndex = num_add (of_count n) (Fin (of_int i));
          predictedValue = num_add (num_mul slope futureIndex) intercept;
          trendAdjustment = num_mul (num_mul slope (Fin (of_int i))) (b64 0.1);
          adjustedValue = num_add predictedValue trendAdjustment
      in case add_days lastDate i of
           None \<Rightarrow> Inl RangeError
         | Some t \<Rightarrow>
             Inr \<lparr>date = takeWhile (\<lambda>c. c \<noteq> CHR ''T'') (toISOString t),
                  pvalue = parseFloat_toFixed 2 (num_max (Fin 0) adjustedValue),
                  confidence_lower =
                    parseFloat_toFixed 2 (num_max (Fin 0) (num_sub adjustedValue confidenceInterval)),
                  confidence_upper =
                    parseFloat_toFixed 2 (num_add adjustedValue confidenceInterval)\<rparr>)"

text \<open>The loop stops at the first turn that raises.\<close>

fun collect :: "(error + 'a) list \<Rightarrow> error + 'a list" where
  "collect [] = Inr []"
| "collect (Inl e # xs) = Inl e"
| "collect (Inr v # xs) = (case collect xs of Inl e \<Rightarrow> Inl e | Inr vs \<Rightarrow> Inr (v # vs))"

definition residuals_of :: "jsnum list \<Rightarrow> jsnum list \<Rightarrow> jsnum list" where
  "residuals_of values smoothed =
     map (\<lambda>(i, pred). num_abs (num_sub (elem_at values i) pred)) (enumerate 0 smoothed)"

definition accuracy_of :: "jsnum list \<Rightarrow> jsnum list \<Rightarrow> jsnum" where
  "accuracy_of values residuals =
     (let mse = num_div (foldl (\<lambda>sum r. num_add sum (num_mul r r)) (Fin 0) residuals)
                        (of_count (length residuals));
          avg = num_div (foldl num_add (hd values) (tl values)) (of_count (length values));
          variance = num_div (foldl (\<lambda>sum v. num_add sum (num_pow2 (num_sub v avg))) (Fin 0) values)
                             (of_count (length values));
          r2 = num_sub (Fin 1) (num_div mse variance)
      in parseFloat_toFixed 3 (num_max (Fin 0) (num_min (Fin 1) r2)))"

definition predictTimeSeries ::
  "int \<Rightarrow> (jsval \<Rightarrow> int option) \<Rightarrow> row list \<Rightarrow> string \<Rightarrow> int \<Rightarrow> error + prediction_result" where
  "predictTimeSeries now dp data m periods =
     (let tsd = timeSeriesData now dp data m in
      if length tsd < 2
      then Inr \<lparr>pmetric = m, predictions = [], accuracy_score = None,
                model_type = ''insufficient_data''\<rparr>
      else
        (let values = map pt_value tsd;
             indices = map of_count [0..<length tsd];
             smoothed = exponentialSmoothing values (b64 0.3);
             (slope, intercept) = linearRegression indices smoothed;
             lastDate = new_Date dp (pt_stamp (last tsd));
             residuals = residuals_of values smoothed;
             mae = num_div (num_sum residuals) (of_count (length residuals));
             confidenceInterval = num_mul mae (b64 1.96)
         in case collect (map (predict_step (length tsd) slope intercept confidenceInterval lastDate)
                            [1..periods]) of
              Inl e \<Rightarrow> Inl e
            | Inr ps \<Rightarrow>
                Inr \<lparr>pmetric = m, predictions = ps,
                     accuracy_score = Some (accuracy_of values residuals),
                     model_type = ''linear_regression_with_exponential_smoothing''\<rparr>))"

subsection \<open>detectTrend and calculateKPIs\<close>

datatype trend = Up | Down | Stable

definition detectTrend :: "jsnum list \<Rightarrow> trend" where
  "detectTrend values =
     (if length values < 2 then Stable
      else
        (let indices = map of_count [0..<length values];
             slope = fst (linearRegression indices values);
             avgValue = num_div (num_sum values) (of_count (length values));
             relativeSlopeThreshold = num_mul avgValue (b64 0.01)
         in if num_gt slope relativeSlopeThreshold then Up
            else if num_lt slope (num_neg relativeSlopeThreshold) then Down
            else Stable))"

record kpi =
  kpi_id :: string
  kpi_name :: string
  kpi_value :: jsnum
  kpi_change :: jsnum
  kpi_trend :: trend
  kpi_unit :: string

text \<open>\<open>column.replace(/_/g, ' ').replace(/\b\w/g, l => l.toUpperCase())\<close>.\<close>

fun capitalize :: "bool \<Rightarrow> string \<Rightarrow> string" where
  "capitalize inside [] = []"
| "capitalize inside (c # cs) =
     (if word_char c \<and> \<not> inside then to_upper_char c else c) # capitalize (word_char c) cs"

definition kpi_title :: "string \<Rightarrow> string" where
  "kpi_title column = capitalize False (map (\<lambda>c. if c = CHR ''_'' then CHR '' '' else c) column)"

definition kpi_of :: "row list \<Rightarrow> string \<Rightarrow> kpi list" where
  "kpi_of data column =
     (let values = filter (\<lambda>v. \<not> isNaN v) (map (\<lambda>r. to_number (get r column)) data) in
      if length values = 0 then []
      else
        (let currentValue = last values;
             previousValue = (if 1 < length values then values ! (length values - 2) else currentValue);
             change = (if previousValue \<noteq> Fin 0
                       then num_mul (num_div (num_sub currentValue previousValue) previousValue) (Fin 100)
                       else Fin 0);
             trend = detectTrend (drop (length values - 10) values)
         in [\<lparr>kpi_id = column, kpi_name = kpi_title column,
               kpi_value = parseFloat_toFixed 2 currentValue,
               kpi_change = parseFloat_toFixed 2 change,
               kpi_trend = trend,
               kpi_unit = (if str_includes (toLowerCase column) ''revenue''
                              \<or> str_includes (toLowerCase column) ''sales'' then ''$'' else [])\<rparr>]))"

definition calculateKPIs :: "row list \<Rightarrow> string list \<Rightarrow> kpi list" where
  "calculateKPIs data columns = concat (map (kpi_of data) columns)"

section \<open>Numbers as text\<close>

text \<open>
  \<open>Number::toString\<close> prints the shortest decimal text that reads back as the same
  binary64 number, which has no counterpart on the reals: it is a parameter \<open>nt\<close> of
  the functions that print a number. \<open>x.toFixed(d)\<close> prints positional digits below
  \<open>10^21\<close> and falls back on \<open>Number::toString\<close> from there on.
\<close>

fun nat_text :: "nat \<Rightarrow> string" where
  "nat_text n = (if n < 10 then [digit_chars ! n] else nat_text (n div 10) @ [digit_chars ! (n mod 10)])"

declare nat_text.simps [simp del]

fun toFixed :: "(real \<Rightarrow> string) \<Rightarrow> nat \<Rightarrow> jsnum \<Rightarrow> string" where
  "toFixed nt d (Fin x) =
     (if 10 ^ 21 \<le> \<bar>x\<bar> then nt x
      else (if x < 0 then ''-'' else [])
           @ nat_text (nat (fixed_units d x) div 10 ^ d)
           @ (if d = 0 then [] else ''.'' @ pad_digits d (nat (fixed_units d x))))"
| "toFixed nt d PInf = ''Infinity''"
| "toFixed nt d NInf = ''-Infinity''"
| "toFixed nt d NaN = ''NaN''"

text \<open>\<open>String(v)\<close>, also the property key that a value used as a key converts to.\<close>

fun to_text :: "(real \<Rightarrow> string) \<Rightarrow> jsval \<Rightarrow> string" where
  "to_text nt JUndefined = ''undefined''"
| "to_text nt JNull = ''null''"
| "to_text nt (JBool b) = (if b then ''true'' else ''false'')"
| "to_text nt (JNum (Fin x)) = nt x"
| "to_text nt (JNum PInf) = ''Infinity''"
| "to_text nt (JNum NInf) = ''-Infinity''"
| "to_text nt (JNum NaN) = ''NaN''"
| "to_text nt (JStr s) = s"


section \<open>The cleaning pipeline (dataProcessor.ts)\<close>

datatype column_type = TString | TNumber | TDate | TBoolean

record data_column =
  col_name :: string
  col_type :: column_type
  nullable :: bool
  unique_count :: nat

record summary =
  total_rows :: nat
  total_columns :: nat
  missing_values :: "string \<rightharpoonup> nat"
  duplicates :: int

record processed_data =
  pd_columns :: "data_column list"
  pd_rows :: "row list"
  pd_summary :: summary

subsection \<open>detectColumnType\<close>

definition boolean_like :: "jsval \<Rightarrow> bool" where
  "boolean_like v =
     (v = JBool True \<or> v = JBool False \<or> v = JStr ''true'' \<or> v = JStr ''false''
      \<or> v = JStr ''0'' \<or> v = JStr ''1'')"

definition detectColumnType :: "(jsval \<Rightarrow> int option) \<Rightarrow> jsval list \<Rightarrow> column_type" where
  "detectColumnType dp values =
     (let nonNullValues = filter (\<lambda>v. v \<noteq> JNull \<and> v \<noteq> JUndefined \<and> v \<noteq> JStr []) values in
      if length nonNullValues = 0 then TString
      else if list_all (\<lambda>v. \<not> isNaN (to_number v)) nonNullValues then TNumber
      else if list_all boolean_like nonNullValues then TBoolean
      else if list_all (\<lambda>v. dp v \<noteq> None) nonNullValues then TDate
      else TString)"

subsection \<open>cleanData\<close>

definition clean_cell :: "string \<times> jsval \<Rightarrow> string \<times> jsval" where
  "clean_cell kv =
     (fst kv, if snd kv = JNull \<or> snd kv = JUndefined \<or> snd kv = JStr [] then JNull else snd kv)"

definition cleanData :: "row list \<Rightarrow> row list" where
  "cleanData data = map (map clean_cell) data"

subsection \<open>removeDuplicates\<close>

text \<open>
  The rows are compared by their \<open>JSON.stringify\<close> texts. The text of a row lists its
  properties in order, leaves out the ones that are \<open>undefined\<close>, and prints NaN and
  the infinities as \<open>null\<close>; two rows have the same text exactly when they have the
  same list of keys and printed atoms, which is what the model keeps of the text.
\<close>

datatype json_atom = JsonNull | JsonBool bool | JsonNum real | JsonStr string

fun json_of :: "jsval \<Rightarrow> json_atom option" where
  "json_of JUndefined = None"
| "json_of JNull = Some JsonNull"
| "json_of (JBool b) = Some (JsonBool b)"
| "json_of (JNum (Fin x)) = Some (JsonNum x)"
| "json_of (JNum _) = Some JsonNull"
| "json_of (JStr s) = Some (JsonStr s)"

fun JSON_stringify :: "row \<Rightarrow> (string \<times> json_atom) list" where
  "JSON_stringify [] = []"
| "JSON_stringify ((k, v) # r) =
     (case json_of v of None \<Rightarrow> JSON_stringify r | Some a \<Rightarrow> (k, a) # JSON_stringify r)"

text \<open>The loop over the rows, with the set \<open>seen\<close> of the texts met so far.\<close>

fun removeDuplicates_loop :: "(string \<times> json_atom) list list \<Rightarrow> row list \<Rightarrow> row list" where
  "removeDuplicates_loop seen [] = []"
| "removeDuplicates_loop seen (r # rs) =
     (if JSON_stringify r \<in> set seen then removeDuplicates_loop seen rs
      else r # removeDuplicates_loop (JSON_stringify r # seen) rs)"

definition removeDuplicates :: "row list \<Rightarrow> row list" where
  "removeDuplicates data = removeDuplicates_loop [] data"

subsection \<open>fillMissingValues\<close>

text \<open>\<open>a === b\<close> on primitive values.\<close>

definition strict_eq :: "jsval \<Rightarrow> jsval \<Rightarrow> bool" where
  "strict_eq a b = (a = b \<and> a \<noteq> JNum NaN)"

definition occurrences :: "jsval list \<Rightarrow> jsval \<Rightarrow> nat" where
  "occurrences values a = length (filter (\<lambda>v. strict_eq v a) values)"

text \<open>\<open>values.sort((a, b) => count(a) - count(b)).pop()\<close> on a non-empty array.\<close>

definition mode_of :: "jsval list \<Rightarrow> jsval" where
  "mode_of values =
     last (js_sort (\<lambda>a b. num_sub (of_count (occurrences values a)) (of_count (occurrences values b)))
             values)"

definition fill_with :: "string \<Rightarrow> jsval \<Rightarrow> row \<Rightarrow> row" where
  "fill_with name v r = (if is_nullish (get r name) then set_prop r name v else r)"

text \<open>One turn of the loop over the columns, on the rows filled so far.\<close>

definition fill_column :: "row list \<Rightarrow> data_column \<Rightarrow> row list" where
  "fill_column filled column =
     (let values = filter (\<lambda>v. \<not> is_nullish v) (map (\<lambda>r. get r (col_name column)) filled) in
      if length values = 0 then filled
      else if col_type column = TNumber then
        map (fill_with (col_name column)
               (JNum (num_div (foldl (\<lambda>sum v. num_add sum (to_number v)) (Fin 0) values)
                              (of_count (length values))))) filled
      else if col_type column = TString then
        map (fill_with (col_name column) (val_or (mode_of values) (JStr []))) filled
      else filled)"

definition fillMissingValues :: "row list \<Rightarrow> data_column list \<Rightarrow> row list" where
  "fillMissingValues data columns = foldl fill_column data columns"

subsection \<open>processDataset\<close>

definition null_count :: "row list \<Rightarrow> string \<Rightarrow> nat" where
  "null_count rs name = length (filter (\<lambda>r. is_nullish (get r name)) rs)"

definition column_of :: "(jsval \<Rightarrow> int option) \<Rightarrow> row list \<Rightarrow> string \<Rightarrow> data_column" where
  "column_of dp unique name =
     (let values = map (\<lambda>r. get r name) unique;
          nonNullValues = filter (\<lambda>v. \<not> is_nullish v) values
      in \<lparr>col_name = name, col_type = detectColumnType dp values,
          nullable = (length nonNullValues < length unique),
          unique_count = length (remdups nonNullValues)\<rparr>)"

definition count_missing :: "row list \<Rightarrow> (string \<rightharpoonup> nat) \<Rightarrow> data_column \<Rightarrow> (string \<rightharpoonup> nat)" where
  "count_missing cleaned missingValues column =
     (if 0 < null_count cleaned (col_name column)
      then missingValues(col_name column \<mapsto> null_count cleaned (col_name column))
      else missingValues)"

definition processDataset :: "(jsval \<Rightarrow> int option) \<Rightarrow> row list \<Rightarrow> error + processed_data" where
  "processDataset dp rawData =
     (if length rawData = 0 then Inl NoData
      else
        (let cleaned = cleanData rawData;
             unique = removeDuplicates cleaned;
             columnNames = map fst (hd unique);
             columns = map (column_of dp unique) columnNames;
             filled = fillMissingValues unique columns;
             missingValues = foldl (count_missing cleaned) Map.empty columns
         in Inr \<lparr>pd_columns = columns, pd_rows = filled,
                  pd_summary = \<lparr>total_rows = length filled, total_columns = length columns,
                                 missing_values = missingValues,
                                 duplicates = int (length rawData) - int (length unique)\<rparr>\<rparr>))"

text \<open>The second pass of the pipeline, on the rows that a first pass returned.\<close>

definition second_pass :: "(jsval \<Rightarrow> int option) \<Rightarrow> row list \<Rightarrow> error + processed_data" where
  "second_pass dp x =
     (case processDataset dp x of Inl e \<Rightarrow> Inl e | Inr p \<Rightarrow> processDataset dp (pd_rows p))"

subsection \<open>generateStatistics\<close>


definition numeric_values :: "row list \<Rightarrow> string \<Rightarrow> jsnum list" where
  "numeric_values data name = filter (\<lambda>v. \<not> isNaN v) (map (\<lambda>r. to_number (get r name)) data)"


definition mean_of :: "jsnum list \<Rightarrow> jsnum" where
  "mean_of values = num_div (foldl num_add (Fin 0) values) (of_count (length values))"






section \<open>The query executor (nlqService.ts)\<close>

text \<open>
  \<open>executeQuery\<close> tests the query text against a list of shapes, in order; each shape
  is a block \<open>if (test) { match; if (match) return result }\<close> that falls through to
  the next one when the test or the match fails. A block is modelled as a function to
  \<open>row list option\<close>, \<open>None\<close> for falling through. With rows of primitive cells nothing
  inside the \<open>try\<close> raises.
\<close>

definition count_query :: "string \<Rightarrow> row list \<Rightarrow> row list option" where
  "count_query sql data =
     (if str_includes (toLowerCase sql) ''select count(*)''
      then Some [[(''total_count'', JNum (of_count (length data)))]] else None)"

definition avg_query :: "(real \<Rightarrow> string) \<Rightarrow> string \<Rightarrow> row list \<Rightarrow> row list option" where
  "avg_query nt sql data =
     (if str_includes (toLowerCase sql) ''avg('' \<or> str_includes (toLowerCase sql) ''average''
      then
        (case match_word ''avg('' '')'' sql of
           None \<Rightarrow> None
         | Some column \<Rightarrow>
             Some [[(''average_'' @ column,
                     JStr (toFixed nt 2 (mean_of (numeric_values data column))))]])
      else None)"

definition sum_query :: "string \<Rightarrow> row list \<Rightarrow> row list option" where
  "sum_query sql data =
     (if str_includes (toLowerCase sql) ''sum(''
      then
        (case match_word ''sum('' '')'' sql of
           None \<Rightarrow> None
         | Some column \<Rightarrow>
             Some [[(''total_'' @ column,
                     JNum (foldl (\<lambda>total r. num_add total (num_or (to_number (get r column)) (Fin 0)))
                             (Fin 0) data))]])
      else None)"

text \<open>
  The object \<open>grouped\<close>: its properties in the order of their creation.
  \<open>grouped[key] = (grouped[key] || 0) + (Number(row[sumCol]) || 0)\<close>.
\<close>

definition add_to_group ::
  "(real \<Rightarrow> string) \<Rightarrow> string \<Rightarrow> string \<Rightarrow> (string \<times> jsnum) list \<Rightarrow> row \<Rightarrow> (string \<times> jsnum) list" where
  "add_to_group nt groupCol sumCol grouped r =
     (let key = to_text nt (get r groupCol);
          old = (case map_of grouped key of None \<Rightarrow> Fin 0 | Some v \<Rightarrow> num_or v (Fin 0));
          new = num_add old (num_or (to_number (get r sumCol)) (Fin 0))
      in if key \<in> fst ` set grouped
         then map (\<lambda>kv. if fst kv = key then (key, new) else kv) grouped
         else grouped @ [(key, new)])"

text \<open>
  \<open>Object.entries\<close> lists the keys that are array indices first, in ascending order,
  then the other keys in the order of their creation.
\<close>

definition is_array_index :: "string \<Rightarrow> bool" where
  "is_array_index k =
     (all_digits 10 k \<and> (k = ''0'' \<or> hd k \<noteq> CHR ''0'') \<and> digits_value 10 k < 4294967295)"

definition entries :: "(string \<times> jsnum) list \<Rightarrow> (string \<times> jsnum) list" where
  "entries obj =
     js_sort (\<lambda>a b. num_sub (of_count (digits_value 10 (fst a))) (of_count (digits_value 10 (fst b))))
       (filter (\<lambda>kv. is_array_index (fst kv)) obj)
     @ filter (\<lambda>kv. \<not> is_array_index (fst kv)) obj"

definition group_query :: "(real \<Rightarrow> string) \<Rightarrow> string \<Rightarrow> row list \<Rightarrow> row list option" where
  "group_query nt sql data =
     (if str_includes (toLowerCase sql) ''group by''
      then
        (case (match_word ''group by '' [] sql, match_word ''sum('' '')'' sql) of
           (Some groupCol, Some sumCol) \<Rightarrow>
             Some (take 20
               (js_sort (\<lambda>a b. num_sub (to_number (get b ''total'')) (to_number (get a ''total'')))
                  (map (\<lambda>kv. set_prop [(groupCol, JStr (fst kv))] ''total'' (JNum (snd kv)))
                     (entries (foldl (add_to_group nt groupCol sumCol) [] data)))))
         | _ \<Rightarrow> None)
      else None)"

definition order_query :: "bool \<Rightarrow> string \<Rightarrow> row list \<Rightarrow> row list option" where
  "order_query desc sql data =
     (if str_includes (toLowerCase sql) ''order by''
         \<and> str_includes (toLowerCase sql) (if desc then ''desc'' else ''asc'')
      then
        (case match_word ''order by '' (if desc then '' desc'' else '' asc'') sql of
           None \<Rightarrow> None
         | Some column \<Rightarrow>
             Some (take 10
               (js_sort
                  (\<lambda>a b. if desc
                         then num_sub (num_or (to_number (get b column)) (Fin 0))
                                      (num_or (to_number (get a column)) (Fin 0))
                         else num_sub (num_or (to_number (get a column)) (Fin 0))
                                      (num_or (to_number (get b column)) (Fin 0)))
                  data)))
      else None)"

text \<open>
  The first shape that returns wins; when none does, the first \<open>cap\<close> rows are
  returned: 100 in the client (src/services), 10 in the backend copy.
\<close>

definition first_of :: "'a option list \<Rightarrow> 'a option" where
  "first_of xs = (case filter (\<lambda>x. x \<noteq> None) xs of [] \<Rightarrow> None | x # _ \<Rightarrow> x)"

definition executeQuery_cap :: "nat \<Rightarrow> (real \<Rightarrow> string) \<Rightarrow> string \<Rightarrow> row list \<Rightarrow> row list" where
  "executeQuery_cap cap nt sql data =
     (case first_of [count_query sql data, avg_query nt sql data, sum_query sql data,
                     group_query nt sql data, order_query True sql data,
                     order_query False sql data] of
        Some result \<Rightarrow> result
      | None \<Rightarrow> take cap data)"

definition executeQuery :: "(real \<Rightarrow> string) \<Rightarrow> string \<Rightarrow> row list \<Rightarrow> row list" where
  "executeQuery = executeQuery_cap 100"

definition executeQuery_backend :: "(real \<Rightarrow> string) \<Rightarrow> string \<Rightarrow> row list \<Rightarrow> row list" where
  "executeQuery_backend = executeQuery_cap 10"

section \<open>Sample inputs\<close>

text \<open>Rows used by the closed examples below.\<close>

definition sample_row :: "string \<Rightarrow> real \<Rightarrow> row" where
  "sample_row d v = [(''date'', JStr d), (''sales'', JNum (Fin v))]"

definition spike_rows :: "row list" where
  "spike_rows =
     [sample_row ''2024-01-01'' 0, sample_row ''2024-01-02'' 0, sample_row ''2024-01-03'' 0,
      sample_row ''2024-01-04'' 0, sample_row ''2024-01-05'' 0, sample_row ''2024-01-06'' 0,
      sample_row ''2024-01-07'' 0, sample_row ''2024-01-08'' 0, sample_row ''2024-01-09'' 0,
      sample_row ''2024-01-10'' 10]"


definition undated_rows :: "row list" where
  "undated_rows =
     [[(''sales'', JNum (Fin 0))], [(''sales'', JNum (Fin 0))], [(''sales'', JNum (Fin 0))],
      [(''sales'', JNum (Fin 0))], [(''sales'', JNum (Fin 0))], [(''sales'', JNum (Fin 0))],
      [(''sales'', JNum (Fin 0))], [(''sales'', JNum (Fin 0))], [(''sales'', JNum (Fin 0))],
      [(''sales'', JNum (Fin 10))]]"

definition mixed_rows :: "row list" where
  "mixed_rows =
     [[(''date'', JStr ''2024-01-01''), (''sales'', JStr ''abc'')],
      [(''date'', JStr ''2024-01-02''), (''sales'', JNum (Fin 10))]]"

definition falling_rows :: "row list" where
  "falling_rows = [sample_row ''2024-01-01'' 10, sample_row ''2024-01-02'' 0]"

definition region_rows :: "row list" where
  "region_rows =
     [[(''region'', JStr ''A''), (''sales'', JNum (Fin 30))],
      [(''region'', JStr ''A''), (''sales'', JNum (Fin 20))],
      [(''region'', JStr ''B''), (''sales'', JNum (Fin 10))]]"

definition group_sql :: string where
  "group_sql = ''SELECT region, SUM(sales) as total FROM data GROUP BY region LIMIT 20''"

definition gap_rows :: "row list" where
  "gap_rows =
     [[(''name'', JStr ''x''), (''city'', JNull)],
      [(''name'', JStr ''x''), (''city'', JStr ''Paris'')]]"


definition full_rows :: "row list" where
  "full_rows =
     [[(''name'', JStr ''x''), (''city'', JStr ''Paris'')],
      [(''name'', JStr ''x''), (''city'', JStr ''Paris'')],
      [(''name'', JStr ''y''), (''city'', JStr ''Rome'')]]"






section \<open>Evaluation and arithmetic lemmas\<close>

subsection \<open>Rounding\<close>

lemmas b64_defs = b64_def overflow_def rounded_def round_to_def round_even_def tie_even_def
  quantum_def binade_def exp2_def ilog2_in.simps

lemma exp2_powi: "exp2 e = 2 powi e"
  by (simp add: exp2_def power_int_def power_one_over inverse_eq_divide)

lemma exp2_pos: "0 < exp2 e"
  by (simp add: exp2_def)


lemma exp2_mono: "a \<le> b \<Longrightarrow> exp2 a \<le> exp2 b"
  by (simp add: exp2_powi power_int_increasing)



lemma ilog2_in_lower: "lo < hi \<Longrightarrow> exp2 lo \<le> x \<Longrightarrow> exp2 (ilog2_in x lo hi) \<le> x"
proof (induction x lo hi rule: ilog2_in.induct)
  case (1 x lo hi)
  show ?case
  proof (cases "hi \<le> lo + 1")
    case True
    with 1(4) show ?thesis by (simp add: ilog2_in.simps [of x lo hi])
  next
    case far: False
    then have m: "lo < (lo + hi) div 2" "(lo + hi) div 2 < hi" by linarith+
    show ?thesis
    proof (cases "exp2 ((lo + hi) div 2) \<le> x")
      case True
      from 1(1) [OF far True m(2) True] far True show ?thesis
        by (simp add: ilog2_in.simps [of x lo hi])
    next
      case False
      from 1(2) [OF far False m(1) 1(4)] far False show ?thesis
        by (simp add: ilog2_in.simps [of x lo hi])
    qed
  qed
qed

lemma ilog2_in_upper: "lo < hi \<Longrightarrow> x < exp2 hi \<Longrightarrow> x < exp2 (ilog2_in x lo hi + 1)"
proof (induction x lo hi rule: ilog2_in.induct)
  case (1 x lo hi)
  show ?case
  proof (cases "hi \<le> lo + 1")
    case True
    then have "ilog2_in x lo hi = lo" by (simp add: ilog2_in.simps [of x lo hi])
    moreover from True 1(3) have "hi = lo + 1" by simp
    ultimately show ?thesis using 1(4) by simp
  next
    case far: False
    then have m: "lo < (lo + hi) div 2" "(lo + hi) div 2 < hi" by linarith+
    show ?thesis
    proof (cases "exp2 ((lo + hi) div 2) \<le> x")
      case True
      from 1(1) [OF far True m(2) 1(4)] far True show ?thesis
        by (simp add: ilog2_in.simps [of x lo hi])
    next
      case False
      then have "x < exp2 ((lo + hi) div 2)" by simp
      from 1(2) [OF far False m(1) this] far False show ?thesis
        by (simp add: ilog2_in.simps [of x lo hi])
    qed
  qed
qed


lemma tie_even_int: "tie_even f 0 = f"
  by (simp add: tie_even_def)

lemma round_even_of_int: "round_even (of_int k) = k"
  by (simp add: round_even_def tie_even_def)



lemma quantum_pos: "0 < quantum x"
  by (simp add: quantum_def binade_def exp2_pos)







lemma round_to_exact:
  assumes "\<bar>x\<bar> / q = of_int k" and "0 < q"
  shows "round_to q x = x"
proof -
  from assms have "of_int k * q = \<bar>x\<bar>" by (simp add: field_simps)
  then show ?thesis
    unfolding round_to_def assms(1) round_even_of_int by (simp add: sgn_if)
qed

lemma b64_of_int:
  assumes "\<bar>i\<bar> \<le> 2 ^ 53"
  shows "b64 (of_int i) = Fin (of_int i)"
proof (cases "i = 0")
  case True
  then show ?thesis by (simp add: b64_def overflow_def rounded_def round_to_def)
next
  case False
  let ?x = "real_of_int i"
  let ?e = "ilog2_in \<bar>?x\<bar> (- 1022) 1024"
  from False have one: "1 \<le> \<bar>?x\<bar>" by (simp add: abs_if)
  from assms have top: "\<bar>?x\<bar> \<le> 2 ^ 53"
    by (metis of_int_abs of_int_le_iff of_int_numeral of_int_power)
  have "exp2 (- 1022) \<le> exp2 0" by (intro exp2_mono) simp
  with one have "exp2 (- 1022) \<le> \<bar>?x\<bar>" by (simp add: exp2_def)
  then have lower: "exp2 ?e \<le> \<bar>?x\<bar>" by (intro ilog2_in_lower) simp_all
  have "(2::real) ^ 53 < 2 ^ 1024" by simp
  with top have "\<bar>?x\<bar> < exp2 1024" by (simp add: exp2_def)
  then have upper: "\<bar>?x\<bar> < exp2 (?e + 1)" by (intro ilog2_in_upper) simp_all
  have e53: "?e \<le> 53"
  proof (rule ccontr)
    assume "\<not> ?e \<le> 53"
    then have "exp2 54 \<le> exp2 ?e" by (intro exp2_mono) simp
    with lower top show False by (simp add: exp2_def)
  qed
  have e0: "0 \<le> ?e"
  proof (rule ccontr)
    assume "\<not> 0 \<le> ?e"
    then have "exp2 (?e + 1) \<le> exp2 0" by (intro exp2_mono) simp
    with upper one show False by (simp add: exp2_def)
  qed
  have "\<exists>k::int. \<bar>?x\<bar> / quantum ?x = of_int k"
  proof (cases "?e \<le> 52")
    case True
    then have "quantum ?x = 1 / 2 ^ nat (52 - ?e)"
      by (cases "?e = 52") (simp_all add: quantum_def binade_def exp2_def)
    then have "\<bar>?x\<bar> / quantum ?x = of_int (\<bar>i\<bar> * 2 ^ nat (52 - ?e))" by simp
    then show ?thesis by (rule exI)
  next
    case False
    with e53 have e: "?e = 53" by simp
    with lower top have "\<bar>?x\<bar> = 2 ^ 53" by (simp add: exp2_def)
    moreover from e have "quantum ?x = 2" by (simp add: quantum_def binade_def exp2_def)
    ultimately have "\<bar>?x\<bar> / quantum ?x = of_int (2 ^ 52)" by simp
    then show ?thesis by (rule exI)
  qed
  then obtain k :: int where "\<bar>?x\<bar> / quantum ?x = of_int k" by blast
  then have "round_to (quantum ?x) ?x = ?x" using quantum_pos by (rule round_to_exact)
  moreover from top have "\<not> 2 ^ 1024 \<le> \<bar>?x\<bar>" by simp
  ultimately show ?thesis by (simp add: b64_def overflow_def rounded_def)
qed

lemma b64_0 [simp]: "b64 0 = Fin 0"
  using b64_of_int [of 0] by simp

lemma b64_1 [simp]: "b64 1 = Fin 1"
  using b64_of_int [of 1] by simp

lemma b64_numeral [simp]:
  "(numeral k :: int) \<le> 9007199254740992 \<Longrightarrow> b64 (numeral k) = Fin (numeral k)"
  using b64_of_int [of "numeral k"] by simp

lemma b64_neg_numeral [simp]:
  "(numeral k :: int) \<le> 9007199254740992 \<Longrightarrow> b64 (- numeral k) = Fin (- numeral k)"
  using b64_of_int [of "- numeral k"] by simp
























subsection \<open>Evaluation\<close>

lemmas num_defs = isNaN_def num_sub_def num_gt_def num_le_def num_ge_def num_pow2_def
  num_max_def num_min_def num_or_def of_count_def sgn_inf_def fixed_units_def b64_defs

lemma sqrt_9: "sqrt 9 = 3"
  by (rule real_sqrt_unique) simp_all

lemmas str_defs = str_to_number_def str_trim_def ws_char_def startsWith_def toLowerCase_def
  to_lower_char_def upper_chars_def lower_chars_def digit_chars_def parse_unsigned_decimal_def
  parse_exponent_def parse_radix_def all_digits_def is_digit_def digit_in_def digit_table_def
  digits_value_def

lemma pad_digits_numeral:
  "pad_digits (numeral k) n = pad_digits (pred_numeral k) (n div 10) @ [digit_chars ! (n mod 10)]"
  unfolding numeral_eq_Suc [of k] by simp

lemmas parse_defs = iso_parse_date_def iso_parse_time_def days_in_month_def days_from_civil_def
  ms_per_day_def getTime_def

lemmas iso_defs = toISOString_def civil_from_days_def civil_of_era_def civil_of_doe_def
  civil_of_yoe_def civil_of_doy_def civil_of_mp_def ms_per_day_def add_days_def
  pad_digits_numeral digit_chars_def

lemma upto_1_4: "[1..4::int] = [1, 2, 3, 4]"
  by (simp add: upto_rec1)

lemmas series_defs = series_def row_point_def row_stamp_def row_value_def enumerate_eq_zip get_def
  val_or_def

lemmas text_defs = startsWith_def starts_ci_def toLowerCase_def to_lower_char_def upper_chars_def
  lower_chars_def digit_chars_def word_char_def

section \<open>Properties of the series\<close>

lemma row_value_not_NaN: "row_value m r \<noteq> NaN"
  by (simp add: row_value_def num_or_def)

lemma series_all_rows:
  "series now data m = map (row_point now (length data) m) (enumerate 0 data)"
  by (simp add: series_def isNaN_def row_point_def row_value_not_NaN)

lemma length_series: "length (series now data m) = length data"
  by (simp add: series_all_rows)


lemma length_js_insert: "length (js_insert cmp x ys) = Suc (length ys)"
  by (induction ys) simp_all

lemma length_js_sort: "length (js_sort cmp xs) = length xs"
  by (induction xs) (simp_all add: js_sort_def length_js_insert)

lemma length_timeSeriesData: "length (timeSeriesData now dp data m) = length data"
  by (simp add: timeSeriesData_def length_js_sort length_series)



section \<open>Properties of detectAnomalies\<close>

lemma series_spike:
  "series now spike_rows ''sales'' =
     map (\<lambda>r. \<lparr>pt_stamp = get r ''date'',
                pt_value = Fin (if r = sample_row ''2024-01-10'' 10 then 10 else 0)\<rparr>) spike_rows"
  by (simp add: series_def spike_rows_def sample_row_def row_point_def row_stamp_def row_value_def
      enumerate_eq_zip get_def val_or_def num_defs upt_rec_numeral)

lemma mean_spike: "series_mean (series now spike_rows ''sales'') = Fin 1"
  by (simp add: series_spike series_mean_def sum_values_def)
     (simp add: spike_rows_def sample_row_def num_defs)

lemma stdDev_spike: "series_stdDev (series now spike_rows ''sales'') = Fin 3"
  unfolding series_stdDev_def series_variance_def mean_spike
  by (simp add: series_spike)
     (simp add: spike_rows_def sample_row_def num_defs sqrt_9)

lemma detect_spike:
  "detectAnomalies now spike_rows ''sales'' =
     [\<lparr>timestamp = JStr ''2024-01-10'', metric = ''sales'', anomaly_value = Fin 10,
       expected_value = Fin 1, deviation = Fin 900, is_anomaly = True, severity = Medium\<rparr>]"
  unfolding detectAnomalies_def Let_def mean_spike stdDev_spike
  by (simp add: series_spike)
     (simp add: spike_rows_def sample_row_def anomaly_of_def zScore_def threshold_def num_defs get_def)

text \<open>
  C7. Every element of the list that \<open>detectAnomalies\<close> returns has \<open>is_anomaly\<close> set,
  and the z-score of its value against the mean and the standard deviation of the whole
  series is strictly greater than 2: the points that are not anomalous are filtered out
  before the return.
\<close>

theorem detectAnomalies_only_anomalies:
  assumes "r \<in> set (detectAnomalies now data m)"
  shows "is_anomaly r
     \<and> num_gt (zScore (anomaly_value r) (series_mean (series now data m))
                 (series_stdDev (series now data m))) (Fin 2)"
proof -
  from assms obtain p where r: "r = anomaly_of m (series_mean (series now data m))
      (series_stdDev (series now data m)) p" and a: "is_anomaly r"
    by (auto simp: detectAnomalies_def Let_def split: if_splits)
  from a show ?thesis unfolding r by (simp add: anomaly_of_def Let_def threshold_def)
qed

theorem detectAnomalies_only_anomalies_witness:
  "detectAnomalies 0 spike_rows ''sales'' \<noteq> []
   \<and> is_anomaly (hd (detectAnomalies 0 spike_rows ''sales''))
   \<and> num_gt (zScore (anomaly_value (hd (detectAnomalies 0 spike_rows ''sales'')))
               (series_mean (series 0 spike_rows ''sales''))
               (series_stdDev (series 0 spike_rows ''sales''))) (Fin 2)"
proof -
  have "hd (detectAnomalies 0 spike_rows ''sales'') \<in> set (detectAnomalies 0 spike_rows ''sales'')"
    by (simp add: detect_spike)
  from detectAnomalies_only_anomalies [OF this] show ?thesis
    by (simp add: detect_spike)
qed














section \<open>Properties of predictTimeSeries\<close>

text \<open>
  C3. The claim is that a row whose metric cell does not parse as a number is dropped
  from the series. In the code the value of such a row is \<open>Number(row[metric]) || 0\<close>,
  which is 0 and not NaN, so the filter \<open>!isNaN(v.value)\<close> keeps the row: on the two
  rows of \<open>mixed_rows\<close> the cell \<open>''abc''\<close> converts to NaN and the series still has
  both points, the first with the value 0.
\<close>

theorem series_keeps_non_numeric_row:
  "isNaN (to_number (get (hd mixed_rows) ''sales''))
   \<and> timeSeriesData 0 iso_parse mixed_rows ''sales'' =
       [\<lparr>pt_stamp = JStr ''2024-01-01'', pt_value = Fin 0\<rparr>,
        \<lparr>pt_stamp = JStr ''2024-01-02'', pt_value = Fin 10\<rparr>]"
  by (simp add: timeSeriesData_def mixed_rows_def js_sort_def series_defs parse_defs num_defs
      str_defs upt_rec_numeral)

lemma tsd_falling:
  "timeSeriesData now iso_parse falling_rows ''sales'' =
     [\<lparr>pt_stamp = JStr ''2024-01-01'', pt_value = Fin 10\<rparr>,
      \<lparr>pt_stamp = JStr ''2024-01-02'', pt_value = Fin 0\<rparr>]"
  by (simp add: timeSeriesData_def falling_rows_def sample_row_def js_sort_def series_defs
      parse_defs num_defs str_defs upt_rec_numeral)

lemma regression_falling: "linearRegression [Fin 0, Fin 1] [Fin 10, Fin 7] = (Fin (- 3), Fin 10)"
  unfolding linearRegression_def Let_def num_sum_def elem_at_def enumerate_eq_zip
  by (simp add: upt_rec_numeral num_defs)

lemma residuals_falling: "residuals_of [Fin 10, Fin 0] [Fin 10, Fin 7] = [Fin 0, Fin 7]"
  unfolding residuals_of_def elem_at_def enumerate_eq_zip
  by (simp add: upt_rec_numeral num_defs)

lemma accuracy_falling: "accuracy_of [Fin 10, Fin 0] [Fin 0, Fin 7] = Fin 0.02"
  unfolding accuracy_of_def Let_def by (simp add: num_defs)

lemma last_date_falling: "iso_parse_date ''2024-01-02'' = Some 1704153600000"
  by (simp add: parse_defs str_defs)

lemma step1_falling:
  "predict_step (Suc (Suc 0)) (Fin (- 3)) (Fin 10) (Fin (482729585058775 / 70368744177664)) (Some 1704153600000) 1 =
     Inr \<lparr>date = ''2024-01-03'', pvalue = Fin 0.7, confidence_lower = Fin 0,
          confidence_upper = Fin 7.56\<rparr>"
  unfolding predict_step_def Let_def by (simp add: iso_defs num_defs)

lemma step2_falling:
  "predict_step (Suc (Suc 0)) (Fin (- 3)) (Fin 10) (Fin (482729585058775 / 70368744177664)) (Some 1704153600000) 2 =
     Inr \<lparr>date = ''2024-01-04'', pvalue = Fin 0, confidence_lower = Fin 0,
          confidence_upper = Fin 4.26\<rparr>"
  unfolding predict_step_def Let_def by (simp add: iso_defs num_defs)

lemma step3_falling:
  "predict_step (Suc (Suc 0)) (Fin (- 3)) (Fin 10) (Fin (482729585058775 / 70368744177664)) (Some 1704153600000) 3 =
     Inr \<lparr>date = ''2024-01-05'', pvalue = Fin 0, confidence_lower = Fin 0,
          confidence_upper = Fin 0.96\<rparr>"
  unfolding predict_step_def Let_def by (simp add: iso_defs num_defs)

lemma step4_falling:
  "predict_step (Suc (Suc 0)) (Fin (- 3)) (Fin 10) (Fin (482729585058775 / 70368744177664)) (Some 1704153600000) 4 =
     Inr \<lparr>date = ''2024-01-06'', pvalue = Fin 0, confidence_lower = Fin 0,
          confidence_upper = Fin (- 2.34)\<rparr>"
  unfolding predict_step_def Let_def by (simp add: iso_defs num_defs)

text \<open>
  C4. The claim is that value, lower and upper bound of every prediction are floored at
  0. The code floors \<open>value\<close> and \<open>confidence_lower\<close> with \<open>Math.max(0, ...)\<close> and
  leaves \<open>confidence_upper\<close> as it is: on the falling series 10, 0 the fourth
  prediction has the upper bound -2.34, below its own value and lower bound 0.
\<close>

theorem predictTimeSeries_negative_upper_bound:
  "predictTimeSeries 0 iso_parse falling_rows ''sales'' 4 =
     Inr \<lparr>pmetric = ''sales'',
          predictions =
            [\<lparr>date = ''2024-01-03'', pvalue = Fin 0.7, confidence_lower = Fin 0,
               confidence_upper = Fin 7.56\<rparr>,
             \<lparr>date = ''2024-01-04'', pvalue = Fin 0, confidence_lower = Fin 0,
               confidence_upper = Fin 4.26\<rparr>,
             \<lparr>date = ''2024-01-05'', pvalue = Fin 0, confidence_lower = Fin 0,
               confidence_upper = Fin 0.96\<rparr>,
             \<lparr>date = ''2024-01-06'', pvalue = Fin 0, confidence_lower = Fin 0,
               confidence_upper = Fin (- 2.34)\<rparr>],
          accuracy_score = Some (Fin 0.02),
          model_type = ''linear_regression_with_exponential_smoothing''\<rparr>"
  unfolding predictTimeSeries_def tsd_falling upto_1_4 Let_def
  by (simp add: upt_rec_numeral num_defs regression_falling residuals_falling accuracy_falling
       last_date_falling step1_falling step2_falling step3_falling step4_falling num_sum_def)

text \<open>
  What the code does floor: the \<open>value\<close> and the \<open>confidence_lower\<close> of every
  prediction go through \<open>Math.max(0, ...)\<close>, so each is at least 0 unless it is NaN
  (which \<open>Math.max\<close> passes on from a series with a non-finite value).
\<close>

lemma floored_at_zero:
  "parseFloat_toFixed 2 (num_max (Fin 0) a) = NaN
   \<or> num_le (Fin 0) (parseFloat_toFixed 2 (num_max (Fin 0) a))"
proof (cases a)
  case (Fin x)
  have "0 \<le> sgn (max 0 x) * real_of_int (fixed_units 2 (max 0 x)) / 10 ^ 2"
    by (simp add: fixed_units_def sgn_if max_def)
  then show ?thesis
    using Fin by (auto simp: num_max_def num_le_def max_def not_less)
qed (simp_all add: num_max_def num_le_def)

lemma collect_members:
  "collect xs = Inr ps \<Longrightarrow> p \<in> set ps \<Longrightarrow> Inr p \<in> set xs"
proof (induction xs arbitrary: ps)
  case Nil
  then show ?case by simp
next
  case (Cons x xs)
  then show ?case
    by (cases x) (auto split: sum.splits)
qed

lemma predictions_floored:
  assumes "predictTimeSeries now dp data m periods = Inr res" and "p \<in> set (predictions res)"
  shows "(pvalue p = NaN \<or> num_le (Fin 0) (pvalue p))
     \<and> (confidence_lower p = NaN \<or> num_le (Fin 0) (confidence_lower p))"
proof (cases "length (timeSeriesData now dp data m) < 2")
  case True
  with assms show ?thesis by (auto simp: predictTimeSeries_def)
next
  case False
  with assms obtain n slope intercept ci lastDate ps where
    c: "collect (map (predict_step n slope intercept ci lastDate) [1..periods]) = Inr ps"
    and p: "p \<in> set ps"
    by (auto simp: predictTimeSeries_def Let_def split: prod.splits sum.splits)
  from collect_members [OF c p] obtain i where
    "predict_step n slope intercept ci lastDate i = Inr p" by auto
  then obtain a b where "pvalue p = parseFloat_toFixed 2 (num_max (Fin 0) a)"
    and "confidence_lower p = parseFloat_toFixed 2 (num_max (Fin 0) b)"
    by (auto simp: predict_step_def Let_def split: option.splits)
  with floored_at_zero [of a] floored_at_zero [of b] show ?thesis by simp
qed

text \<open>
  The guard of \<open>predictTimeSeries\<close> tests the length of the series, which has a point
  for every row: the result for too little data is returned exactly when there are
  fewer than 2 rows, whatever their cells hold.
\<close>

lemma insufficient_data_iff:
  "predictTimeSeries now dp data m periods =
     Inr \<lparr>pmetric = m, predictions = [], accuracy_score = None,
          model_type = ''insufficient_data''\<rparr>
   \<longleftrightarrow> length data < 2"
  by (auto simp: predictTimeSeries_def Let_def length_timeSeriesData
      split: prod.splits sum.splits)

lemma tsd_mixed:
  "timeSeriesData now iso_parse mixed_rows ''sales'' =
     [\<lparr>pt_stamp = JStr ''2024-01-01'', pt_value = Fin 0\<rparr>,
      \<lparr>pt_stamp = JStr ''2024-01-02'', pt_value = Fin 10\<rparr>]"
  by (simp add: timeSeriesData_def mixed_rows_def js_sort_def series_defs parse_defs num_defs
      str_defs upt_rec_numeral)

lemma regression_mixed: "linearRegression [Fin 0, Fin 1] [Fin 0, Fin 3] = (Fin 3, Fin 0)"
  unfolding linearRegression_def Let_def num_sum_def elem_at_def enumerate_eq_zip
  by (simp add: upt_rec_numeral num_defs)

lemma residuals_mixed: "residuals_of [Fin 0, Fin 10] [Fin 0, Fin 3] = [Fin 0, Fin 7]"
  unfolding residuals_of_def elem_at_def enumerate_eq_zip
  by (simp add: upt_rec_numeral num_defs)

lemma accuracy_mixed: "accuracy_of [Fin 0, Fin 10] [Fin 0, Fin 7] = Fin 0.02"
  unfolding accuracy_of_def Let_def by (simp add: num_defs)

lemma step1_mixed:
  "predict_step (Suc (Suc 0)) (Fin 3) (Fin 0) (Fin (482729585058775 / 70368744177664))
     (Some 1704153600000) 1 =
     Inr \<lparr>date = ''2024-01-03'', pvalue = Fin 9.3, confidence_lower = Fin 2.44,
          confidence_upper = Fin 16.16\<rparr>"
  unfolding predict_step_def Let_def by (simp add: iso_defs num_defs)

lemma upto_1_1: "[1..1::int] = [1]"
  by (simp add: upto_rec1)

text \<open>
  C8. The claim is that an input with fewer than 2 usable points, that is, fewer than 2
  rows whose metric cell is a number, gets the result for too little data. Of the two
  rows of \<open>mixed_rows\<close> one has the cell \<open>''abc''\<close>, which is not a number, and one the
  number 10: there is 1 usable point. The row that is not usable stays in the series
  with the value 0, the series has 2 points, and the code fits its model on 0 and 10 and
  returns a prediction.
\<close>

theorem predictTimeSeries_one_usable_point:
  "length mixed_rows = 2
   \<and> isNaN (to_number (get (mixed_rows ! 0) ''sales''))
   \<and> to_number (get (mixed_rows ! 1) ''sales'') = Fin 10
   \<and> predictTimeSeries 0 iso_parse mixed_rows ''sales'' 1 =
       Inr \<lparr>pmetric = ''sales'',
            predictions =
              [\<lparr>date = ''2024-01-03'', pvalue = Fin 9.3, confidence_lower = Fin 2.44,
                 confidence_upper = Fin 16.16\<rparr>],
            accuracy_score = Some (Fin 0.02),
            model_type = ''linear_regression_with_exponential_smoothing''\<rparr>"
proof -
  have "predictTimeSeries 0 iso_parse mixed_rows ''sales'' 1 =
       Inr \<lparr>pmetric = ''sales'',
            predictions =
              [\<lparr>date = ''2024-01-03'', pvalue = Fin 9.3, confidence_lower = Fin 2.44,
                 confidence_upper = Fin 16.16\<rparr>],
            accuracy_score = Some (Fin 0.02),
            model_type = ''linear_regression_with_exponential_smoothing''\<rparr>"
    unfolding predictTimeSeries_def tsd_mixed upto_1_1 Let_def
    by (simp add: upt_rec_numeral num_defs regression_mixed residuals_mixed accuracy_mixed
         last_date_falling step1_mixed num_sum_def)
  moreover have "length mixed_rows = 2
     \<and> isNaN (to_number (get (mixed_rows ! 0) ''sales''))
     \<and> to_number (get (mixed_rows ! 1) ''sales'') = Fin 10"
    by (simp add: mixed_rows_def get_def isNaN_def str_defs)
  ultimately show ?thesis by simp
qed


section \<open>Dependence on the clock\<close>

lemma series_undated:
  "series now undated_rows ''sales'' =
     map (\<lambda>k. \<lparr>pt_stamp = JStr (toISOString (now - k)), pt_value = Fin 0\<rparr>)
       [864000000, 777600000, 691200000, 604800000, 518400000, 432000000, 345600000,
        259200000, 172800000]
     @ [\<lparr>pt_stamp = JStr (toISOString (now - 86400000)), pt_value = Fin 10\<rparr>]"
  by (simp add: undated_rows_def series_defs num_defs upt_rec_numeral)

lemma mean_undated: "series_mean (series now undated_rows ''sales'') = Fin 1"
  unfolding series_mean_def sum_values_def series_undated
  by (simp add: num_defs)

lemma stdDev_undated: "series_stdDev (series now undated_rows ''sales'') = Fin 3"
  unfolding series_stdDev_def series_variance_def mean_undated
  by (simp add: series_undated num_defs sqrt_9)

lemma detect_undated:
  "detectAnomalies now undated_rows ''sales'' =
     [\<lparr>timestamp = JStr (toISOString (now - 86400000)), metric = ''sales'',
       anomaly_value = Fin 10, expected_value = Fin 1, deviation = Fin 900, is_anomaly = True,
       severity = Medium\<rparr>]"
  unfolding detectAnomalies_def Let_def mean_undated stdDev_undated
  by (simp add: series_undated anomaly_of_def zScore_def threshold_def num_defs)

lemma iso_day_before_epoch: "toISOString (- 86400000) = ''1969-12-31T00:00:00.000Z''"
  by (simp add: iso_defs)

lemma iso_epoch: "toISOString 0 = ''1970-01-01T00:00:00.000Z''"
  by (simp add: iso_defs)

text \<open>
  C6, as stated, fails. Rows without a \<open>date\<close> or \<open>timestamp\<close> field get a synthetic
  timestamp counted back from \<open>Date.now()\<close>: on the same ten rows, the anomaly that
  \<open>detectAnomalies\<close> reports carries the timestamp 1969-12-31 when the clock reads 0
  and 1970-01-01 when it reads one day later.
\<close>

theorem detectAnomalies_depends_on_clock:
  "detectAnomalies 0 undated_rows ''sales'' \<noteq> detectAnomalies 86400000 undated_rows ''sales''"
  by (simp add: detect_undated iso_day_before_epoch iso_epoch)

lemma row_stamp_dated:
  "has_date r \<Longrightarrow> row_stamp now n i r = val_or (get r ''date'') (get r ''timestamp'')"
  by (auto simp: has_date_def row_stamp_def val_or_def)

lemma series_dated:
  assumes "list_all has_date data"
  shows "series now data m = series now' data m"
proof -
  have "row_point now (length data) m ir = row_point now' (length data) m ir"
    if "ir \<in> set (enumerate 0 data)" for ir
  proof -
    from that have "snd ir \<in> set data"
      by (metis in_set_zip enumerate_eq_zip nth_mem)
    with assms have "has_date (snd ir)" by (simp add: list_all_iff)
    then show ?thesis by (simp add: row_point_def row_stamp_dated)
  qed
  then show ?thesis by (simp add: series_def cong: map_cong)
qed

text \<open>
  C6, amended. \<open>calculateKPIs\<close> never reads the clock (its model takes no clock
  argument). \<open>detectAnomalies\<close> and \<open>predictTimeSeries\<close> return the same output at any
  two readings of the clock when every row has a truthy \<open>date\<close> or \<open>timestamp\<close> field.
\<close>

theorem analytics_independent_of_clock:
  assumes "list_all has_date data"
  shows "detectAnomalies now data m = detectAnomalies now' data m
     \<and> predictTimeSeries now dp data m periods = predictTimeSeries now' dp data m periods"
  using series_dated [OF assms, of now m now']
  by (simp add: detectAnomalies_def predictTimeSeries_def timeSeriesData_def)

theorem analytics_independent_of_clock_witness:
  "list_all has_date spike_rows
   \<and> detectAnomalies 0 spike_rows ''sales'' = detectAnomalies 86400000 spike_rows ''sales''
   \<and> predictTimeSeries 0 iso_parse spike_rows ''sales'' 30 =
       predictTimeSeries 86400000 iso_parse spike_rows ''sales'' 30"
proof -
  have d: "list_all has_date spike_rows"
    by (simp add: spike_rows_def sample_row_def has_date_def get_def)
  from analytics_independent_of_clock [OF d] d show ?thesis by simp
qed

section \<open>Properties of executeQuery\<close>

lemma lower_group_sql:
  "toLowerCase group_sql = ''select region, sum(sales) as total from data group by region limit 20''"
  by (simp add: group_sql_def text_defs)

lemma no_count_group_sql: "count_query group_sql data = None"
  unfolding count_query_def lower_group_sql by (simp add: startsWith_def)

lemma no_avg_group_sql: "avg_query nt group_sql data = None"
  unfolding avg_query_def lower_group_sql by (simp add: startsWith_def)

lemma sum_match_group_sql: "match_word ''sum('' '')'' group_sql = Some ''sales''"
  by (simp add: group_sql_def text_defs)

lemma sum_includes_group_sql: "str_includes (toLowerCase group_sql) ''sum(''"
  unfolding lower_group_sql by (simp add: startsWith_def)

lemma sum_total_region_rows:
  "sum_query group_sql region_rows = Some [[(''total_sales'', JNum (Fin 60))]]"
  by (simp add: sum_query_def sum_match_group_sql sum_includes_group_sql region_rows_def get_def
      num_defs)

lemma starts_ci_includes: "starts_ci s p \<Longrightarrow> startsWith (toLowerCase s) p"
  by (auto simp: starts_ci_def startsWith_def toLowerCase_def take_map)

lemma match_word_includes:
  "match_word pre suf s = Some w \<Longrightarrow> str_includes (toLowerCase s) pre"
proof (induction s)
  case Nil
  then show ?case by simp
next
  case (Cons c cs)
  show ?case
  proof (cases "starts_ci (c # cs) pre")
    case True
    then have "startsWith (toLowerCase (c # cs)) pre" by (rule starts_ci_includes)
    then show ?thesis by (simp add: toLowerCase_def)
  next
    case False
    with Cons show ?thesis by (simp add: toLowerCase_def)
  qed
qed

text \<open>
  The group-by shape needs a match of \<open>sum\((\w+)\)\<close>; with such a match the text
  contains \<open>sum(\<close> and the sum shape, tested before it, has already returned. So the
  group-by block never decides the result: \<open>executeQuery\<close> is the same function
  without it.
\<close>

lemma group_needs_sum: "group_query nt sql data \<noteq> None \<Longrightarrow> sum_query sql data \<noteq> None"
  by (auto simp: group_query_def sum_query_def split: if_splits option.splits
      dest: match_word_includes)

lemma group_by_branch_dead:
  "executeQuery_cap cap nt sql data =
     (case first_of [count_query sql data, avg_query nt sql data, sum_query sql data,
                     order_query True sql data, order_query False sql data] of
        Some result \<Rightarrow> result
      | None \<Rightarrow> take cap data)"
  using group_needs_sum [of nt sql data]
  by (auto simp: executeQuery_cap_def first_of_def split: option.splits list.splits)

text \<open>
  C1. The claim is that a query text with a GROUP BY clause and a SUM aggregate returns
  one row per group. On the text that the repository's own planner writes for a
  group-by question, over the rows A:30, A:20, B:10, both copies of \<open>executeQuery\<close>
  return the single row \<open>{total_sales: 60}\<close>, the grand total of the sum shape, and not
  the two rows \<open>{region: A, total: 50}\<close>, \<open>{region: B, total: 10}\<close>.
\<close>

theorem executeQuery_group_by_returns_grand_total:
  "executeQuery nt group_sql region_rows = [[(''total_sales'', JNum (Fin 60))]]
   \<and> executeQuery_backend nt group_sql region_rows = [[(''total_sales'', JNum (Fin 60))]]"
  by (simp add: executeQuery_def executeQuery_backend_def executeQuery_cap_def first_of_def
      no_count_group_sql no_avg_group_sql sum_total_region_rows)

section \<open>Properties of the cleaning pipeline\<close>

lemma col_name_column_of: "col_name (column_of dp unique name) = name"
  by (simp add: column_of_def Let_def)

lemma missing_fold:
  "foldl (count_missing cleaned) acc cols name =
     (if name \<in> col_name ` set cols \<and> 0 < null_count cleaned name
      then Some (null_count cleaned name) else acc name)"
  by (induction cols arbitrary: acc) (auto simp: count_missing_def)

lemma processDataset_Inr:
  assumes "rawData \<noteq> []"
  shows "processDataset dp rawData =
     Inr \<lparr>pd_columns = map (column_of dp (removeDuplicates (cleanData rawData)))
                         (map fst (hd (removeDuplicates (cleanData rawData)))),
          pd_rows = fillMissingValues (removeDuplicates (cleanData rawData))
                      (map (column_of dp (removeDuplicates (cleanData rawData)))
                         (map fst (hd (removeDuplicates (cleanData rawData))))),
          pd_summary =
            \<lparr>total_rows = length (fillMissingValues (removeDuplicates (cleanData rawData))
                      (map (column_of dp (removeDuplicates (cleanData rawData)))
                         (map fst (hd (removeDuplicates (cleanData rawData)))))),
             total_columns = length (hd (removeDuplicates (cleanData rawData))),
             missing_values = foldl (count_missing (cleanData rawData)) Map.empty
                      (map (column_of dp (removeDuplicates (cleanData rawData)))
                         (map fst (hd (removeDuplicates (cleanData rawData))))),
             duplicates = int (length rawData) - int (length (removeDuplicates (cleanData rawData)))\<rparr>\<rparr>"
  using assms by (simp add: processDataset_def Let_def)


lemma set_removeDuplicates_loop: "set (removeDuplicates_loop seen rs) \<subseteq> set rs"
  by (induction rs arbitrary: seen) auto

lemma keys_removeDuplicates_loop:
  "distinct (map JSON_stringify (removeDuplicates_loop seen rs))
   \<and> JSON_stringify ` set (removeDuplicates_loop seen rs) \<inter> set seen = {}"
proof (induction rs arbitrary: seen)
  case Nil
  then show ?case by simp
next
  case (Cons r rs)
  show ?case
  proof (cases "JSON_stringify r \<in> set seen")
    case True
    with Cons [of seen] show ?thesis by simp
  next
    case False
    with Cons [of "JSON_stringify r # seen"] show ?thesis by auto
  qed
qed

lemma removeDuplicates_loop_id:
  "distinct (map JSON_stringify rs) \<Longrightarrow> JSON_stringify ` set rs \<inter> set seen = {}
   \<Longrightarrow> removeDuplicates_loop seen rs = rs"
  by (induction rs arbitrary: seen) auto

lemma removeDuplicates_idem: "removeDuplicates (removeDuplicates data) = removeDuplicates data"
  unfolding removeDuplicates_def
  using keys_removeDuplicates_loop [of "[]" data]
  by (intro removeDuplicates_loop_id) simp_all

lemma removeDuplicates_nonempty: "data \<noteq> [] \<Longrightarrow> removeDuplicates data \<noteq> []"
  by (cases data) (simp_all add: removeDuplicates_def)

lemma clean_cell_idem: "clean_cell (clean_cell kv) = clean_cell kv"
  by (simp add: clean_cell_def)

lemma cleanData_fixed:
  assumes "set rs \<subseteq> set (cleanData data)"
  shows "cleanData rs = rs"
proof -
  have "map clean_cell r = r" if "r \<in> set rs" for r
  proof -
    from that assms obtain r0 where "r = map clean_cell r0" by (auto simp: cleanData_def)
    then show ?thesis by (simp add: clean_cell_idem)
  qed
  then show ?thesis by (simp add: cleanData_def map_idI)
qed

lemma fill_column_id:
  assumes "\<forall>r \<in> set rs. \<not> is_nullish (get r (col_name c))"
  shows "fill_column rs c = rs"
proof -
  have "map (fill_with (col_name c) v) rs = rs" for v
    using assms by (simp add: fill_with_def map_idI)
  then show ?thesis by (simp add: fill_column_def Let_def)
qed

lemma fillMissingValues_id:
  assumes "\<forall>c \<in> set cols. \<forall>r \<in> set rs. \<not> is_nullish (get r (col_name c))"
  shows "fillMissingValues rs cols = rs"
  using assms unfolding fillMissingValues_def
  by (induction cols) (simp_all add: fill_column_id)

lemma null_count_0: "null_count rs name = 0 \<longleftrightarrow> (\<forall>r \<in> set rs. \<not> is_nullish (get r name))"
  by (simp add: null_count_def filter_empty_conv)

lemma second_pass_no_missing:
  assumes x: "x \<noteq> []"
    and m: "foldl (count_missing (cleanData x)) Map.empty
              (map (column_of dp (removeDuplicates (cleanData x)))
                 (map fst (hd (removeDuplicates (cleanData x))))) = Map.empty"
  shows "\<exists>p. second_pass dp x = Inr p \<and> duplicates (pd_summary p) = 0"
proof -
  let ?cleaned = "cleanData x"
  let ?unique = "removeDuplicates ?cleaned"
  let ?cols = "map (column_of dp ?unique) (map fst (hd ?unique))"
  have sub: "set ?unique \<subseteq> set ?cleaned"
    by (simp add: removeDuplicates_def set_removeDuplicates_loop)
  have nc: "null_count ?cleaned (col_name c) = 0" if "c \<in> set ?cols" for c
  proof -
    from that have "col_name c \<in> col_name ` set ?cols" by (rule imageI)
    with missing_fold [of ?cleaned Map.empty ?cols "col_name c"] m show ?thesis
      by (simp split: if_splits)
  qed
  have "\<forall>c \<in> set ?cols. \<forall>r \<in> set ?unique. \<not> is_nullish (get r (col_name c))"
  proof (intro ballI)
    fix c r
    assume c: "c \<in> set ?cols" and r: "r \<in> set ?unique"
    from nc [OF c] have "\<forall>r \<in> set ?cleaned. \<not> is_nullish (get r (col_name c))"
      by (simp only: null_count_0)
    moreover from r sub have "r \<in> set ?cleaned" by blast
    ultimately show "\<not> is_nullish (get r (col_name c))" by blast
  qed
  then have filled: "fillMissingValues ?unique ?cols = ?unique" by (rule fillMissingValues_id)
  have ne: "?unique \<noteq> []"
    using x by (simp add: removeDuplicates_nonempty cleanData_def)
  have c2: "cleanData ?unique = ?unique" using sub by (rule cleanData_fixed)
  have "second_pass dp x = processDataset dp (fillMissingValues ?unique ?cols)"
    unfolding second_pass_def processDataset_Inr [OF x] by (simp del: map_map)
  then have "second_pass dp x = processDataset dp ?unique" by (simp only: filled)
  then show ?thesis
    by (simp add: processDataset_Inr [OF ne] c2 removeDuplicates_idem)
qed

lemmas clean_defs = cleanData_def clean_cell_def removeDuplicates_def null_count_def is_nullish_def
  get_def

lemma processDataset_nonempty: "processDataset dp x = Inr p \<Longrightarrow> x \<noteq> []"
  by (auto simp: processDataset_def)

lemma columns_gap_rows:
  "map (column_of iso_parse gap_rows) [''name'', ''city''] =
     [\<lparr>col_name = ''name'', col_type = TString, nullable = False, unique_count = 1\<rparr>,
      \<lparr>col_name = ''city'', col_type = TString, nullable = True, unique_count = 1\<rparr>]"
  by (simp add: column_of_def detectColumnType_def boolean_like_def gap_rows_def get_def
      is_nullish_def isNaN_def str_defs)

lemma filled_gap_rows:
  "fillMissingValues gap_rows
     [\<lparr>col_name = ''name'', col_type = TString, nullable = False, unique_count = 1\<rparr>,
      \<lparr>col_name = ''city'', col_type = TString, nullable = True, unique_count = 1\<rparr>] =
   [[(''name'', JStr ''x''), (''city'', JStr ''Paris'')],
    [(''name'', JStr ''x''), (''city'', JStr ''Paris'')]]"
  by (simp add: fillMissingValues_def fill_column_def fill_with_def mode_of_def js_sort_def
      val_or_def gap_rows_def get_def is_nullish_def)

lemma first_pass_gap_rows:
  "processDataset iso_parse gap_rows =
     Inr \<lparr>pd_columns =
            [\<lparr>col_name = ''name'', col_type = TString, nullable = False, unique_count = 1\<rparr>,
             \<lparr>col_name = ''city'', col_type = TString, nullable = True, unique_count = 1\<rparr>],
          pd_rows =
            [[(''name'', JStr ''x''), (''city'', JStr ''Paris'')],
             [(''name'', JStr ''x''), (''city'', JStr ''Paris'')]],
          pd_summary = \<lparr>total_rows = 2, total_columns = 2,
                         missing_values = [''city'' \<mapsto> 1], duplicates = 0\<rparr>\<rparr>"
proof -
  have c: "cleanData gap_rows = gap_rows" by (simp add: gap_rows_def clean_defs)
  have u: "removeDuplicates gap_rows = gap_rows" by (simp add: gap_rows_def clean_defs)
  have n: "map fst (hd gap_rows) = [''name'', ''city'']" by (simp add: gap_rows_def)
  have l: "length gap_rows = 2" by (simp add: gap_rows_def)
  have m: "foldl (count_missing gap_rows) Map.empty
      [\<lparr>col_name = ''name'', col_type = TString, nullable = False, unique_count = 1\<rparr>,
       \<lparr>col_name = ''city'', col_type = TString, nullable = True, unique_count = 1\<rparr>] =
      [''city'' \<mapsto> 1]"
    by (simp add: count_missing_def gap_rows_def clean_defs)
  show ?thesis
    unfolding processDataset_def Let_def c u n columns_gap_rows filled_gap_rows m l by simp
qed

text \<open>
  C2, as stated, fails. Imputation runs after deduplication and can make two distinct
  rows equal: in \<open>gap_rows\<close> the missing city of the first row is filled with the mode
  \<open>Paris\<close>, the first pass returns two equal rows, and the second pass reports one
  duplicate.
\<close>

theorem second_pass_finds_duplicate:
  "(case second_pass iso_parse gap_rows of
      Inl e \<Rightarrow> False
    | Inr q \<Rightarrow> duplicates (pd_summary q) = 1)"
  by (simp add: second_pass_def first_pass_gap_rows processDataset_Inr clean_defs)

text \<open>
  C2, amended. When the first pass reports no missing value (its \<open>missing_values\<close> is
  empty, so that imputation changes no row), the second pass on the rows it returned
  reports 0 duplicates.
\<close>

theorem second_pass_without_missing_values:
  assumes "processDataset dp x = Inr p"
    and "missing_values (pd_summary p) = Map.empty"
  shows "\<exists>q. second_pass dp x = Inr q \<and> duplicates (pd_summary q) = 0"
proof -
  from assms(1) have x: "x \<noteq> []" by (rule processDataset_nonempty)
  from assms show ?thesis
    unfolding processDataset_Inr [OF x]
    by (intro second_pass_no_missing [OF x]) auto
qed

lemma missing_full_rows:
  "foldl (count_missing (cleanData full_rows)) Map.empty
     (map (column_of dp (removeDuplicates (cleanData full_rows)))
        (map fst (hd (removeDuplicates (cleanData full_rows))))) = Map.empty"
  by (simp add: count_missing_def col_name_column_of full_rows_def clean_defs)

theorem second_pass_without_missing_values_witness:
  "(\<exists>p. processDataset iso_parse full_rows = Inr p
        \<and> missing_values (pd_summary p) = Map.empty \<and> duplicates (pd_summary p) = 1)
   \<and> (\<exists>q. second_pass iso_parse full_rows = Inr q \<and> duplicates (pd_summary q) = 0)"
proof -
  have x: "full_rows \<noteq> []" by (simp add: full_rows_def)
  have d: "int (length full_rows) - int (length (removeDuplicates (cleanData full_rows))) = 1"
    by (simp add: full_rows_def clean_defs)
  note e = processDataset_Inr [OF x, of iso_parse]
  have m: "missing_values (pd_summary (projr (processDataset iso_parse full_rows))) = Map.empty"
    unfolding e by (simp add: missing_full_rows del: map_map)
  have e': "processDataset iso_parse full_rows = Inr (projr (processDataset iso_parse full_rows))"
    unfolding e by simp
  have "duplicates (pd_summary (projr (processDataset iso_parse full_rows))) = 1"
    unfolding e using d by simp
  with second_pass_without_missing_values [OF e' m] e' m show ?thesis by blast
qed




section \<open>Properties of generateStatistics\<close>








































text \<open>
  Before it is rounded to 2 decimals, the mean itself can leave the range of the
  values: the sum is rounded after every addition, and the mean of three values 0.1 is
  the next binary64 number above 0.1.
\<close>

lemma mean_exceeds_max:
  "num_lt (foldl num_max NInf [b64 0.1, b64 0.1, b64 0.1]) (mean_of [b64 0.1, b64 0.1, b64 0.1])"
  by (simp add: mean_of_def num_defs)






end
